theory Spec2Isabelle
  imports Main "HOL-Library.Multiset" "HOL-Library.Product_Lexorder"
begin

section \<open>Strings\<close>

text \<open>
  Strings are lists of characters; a character outside ASCII is written as the bytes of
  its UTF-8 encoding, so that one string occurs in another as a list of bytes exactly
  when it does as a list of code points.
\<close>

text \<open>Python's \<open>s.startswith(p)\<close>.\<close>

fun startswith :: "string \<Rightarrow> string \<Rightarrow> bool" where
  "startswith s [] = True"
| "startswith [] (p # ps) = False"
| "startswith (c # s) (p # ps) = (c = p \<and> startswith s ps)"

text \<open>Python's \<open>sub in s\<close> on strings: \<open>sub\<close> occurs in \<open>s\<close> at some position.\<close>

fun str_in :: "string \<Rightarrow> string \<Rightarrow> bool" where
  "str_in sub [] = (sub = [])"
| "str_in sub (c # s) = (startswith (c # s) sub \<or> str_in sub s)"

section \<open>The banned-word filter\<close>

text \<open>
  \<^verbatim>\<open>
  def contains_mgc(text, mgc_words):
      if not text: return False
      lower = text.lower()
      for w in mgc_words:
          if not w: continue
          if w.lower() in lower: return True
      return False
  \<close>
  The loop over the word list is \<open>mgc_loop\<close>; a text that is \<open>None\<close> or empty is falsy.
  The library's \<open>str.lower\<close> is the parameter \<open>lw\<close>: it follows Unicode, so it need not
  work character by character (a capital sigma becomes a final or a medial small sigma
  according to its place in the word) and it can change the length of a string.
\<close>

fun mgc_loop :: "(string \<Rightarrow> string) \<Rightarrow> string \<Rightarrow> string list \<Rightarrow> bool" where
  "mgc_loop lw lowered [] = False"
| "mgc_loop lw lowered (w # ws) =
     (if w = [] then mgc_loop lw lowered ws
      else if str_in (lw w) lowered then True
      else mgc_loop lw lowered ws)"

definition contains_mgc :: "(string \<Rightarrow> string) \<Rightarrow> string option \<Rightarrow> string list \<Rightarrow> bool" where
  "contains_mgc lw text mgc_words =
     (case text of
        None \<Rightarrow> False
      | Some t \<Rightarrow> if t = [] then False else mgc_loop lw (lw t) mgc_words)"

text \<open>
  The specification's notion: \<open>w\<close> occurs in \<open>t\<close> as a case-insensitive substring when
  some piece of \<open>t\<close> equals \<open>w\<close> up to the case of its letters, that is, has the same
  lower-case form. What the filter looks for instead is the lower-case form of \<open>w\<close>
  inside the lower-case form of \<open>t\<close>.
\<close>

definition ci_substring :: "(string \<Rightarrow> string) \<Rightarrow> string \<Rightarrow> string \<Rightarrow> bool" where
  "ci_substring lw w t = (\<exists>pre s post. t = pre @ s @ post \<and> lw s = lw w)"

definition lowered_substring :: "(string \<Rightarrow> string) \<Rightarrow> string \<Rightarrow> string \<Rightarrow> bool" where
  "lowered_substring lw w t = (\<exists>pre post. lw t = pre @ lw w @ post)"

section \<open>Data model\<close>

text \<open>
  The request bodies (\<open>ScoreSubmit\<close>, \<open>ReportSubmit\<close>, \<open>ReportAudit\<close>, \<open>ReportDelete\<close>),
  the rows of the two tables and the items of the two listings. Fields carry a prefix
  naming their record; Python's \<open>int\<close> is \<open>int\<close>, \<open>Optional\<close> is \<open>option\<close>. The handlers
  receive bodies that passed the schema's bounds already.
\<close>

record ScoreSubmit =
  ss_playerName :: string
  ss_character :: string
  ss_score :: int
  ss_foundCount :: int
  ss_ts :: "int option"

record ReportSubmit =
  rs_text :: string
  rs_npc :: "string option"
  rs_x :: "int option"
  rs_y :: "int option"
  rs_ts :: "int option"
  rs_imgData :: "string option"

record ReportAudit =
  ra_id :: int
  ra_audited :: bool

record ReportDelete =
  rd_id :: int

record score_row =
  sc_id :: int
  sc_player_name :: string
  sc_character :: string
  sc_score :: int
  sc_found_count :: int
  sc_created_at :: int

record report_row =
  rp_id :: int
  rp_text :: string
  rp_npc :: "string option"
  rp_x :: "int option"
  rp_y :: "int option"
  rp_created_at :: int
  rp_audited :: int
  rp_deleted :: int
  rp_img_data :: "string option"

record ScoreItem =
  si_id :: int
  si_playerName :: string
  si_character :: string
  si_score :: int
  si_foundCount :: int
  si_createdAt :: int

record ReportItem =
  ri_id :: int
  ri_text :: string
  ri_npc :: "string option"
  ri_x :: "int option"
  ri_y :: "int option"
  ri_createdAt :: int
  ri_audited :: int
  ri_deleted :: int
  ri_imgData :: "string option"

text \<open>
  The persisted state: the two tables, in insertion order, and the uploads directory as
  a map from file names to file contents.
\<close>

record state =
  scores :: "score_row list"
  reports :: "report_row list"
  uploads :: "string \<rightharpoonup> string"

text \<open>
  What a handler reads from outside: \<open>int(time.time())\<close>, \<open>int(time.time()*1000)\<close>,
  \<open>uuid.uuid4().hex\<close>, and two functions of the library: \<open>base64.b64decode\<close>, which
  gives \<open>None\<close> where the library raises, and \<open>str.lower\<close>.
\<close>

record env =
  time_s :: int
  time_ms :: int
  uuid4_hex :: string
  b64decode :: "string \<Rightarrow> string option"
  str_lower :: "string \<Rightarrow> string"

text \<open>A request carries its headers.\<close>

record Request =
  headers :: "string \<rightharpoonup> string"

text \<open>
  The response envelope \<open>APIResponse\<close>, the payloads of \<open>data\<close> that the handlers build,
  and \<open>HTTPException(status_code, detail)\<close>. The user-facing messages are fixed texts
  of the source; they are enumerated. \<open>MsgIntTooLarge\<close> is the text of the
  \<open>OverflowError\<close> that \<open>sqlite3\<close> raises for an integer it cannot bind, which the
  handlers pass on as the detail of a status 500.
\<close>

datatype message =
  MsgScoreBanned | MsgReportBanned | MsgUploadPwd | MsgAdminPwd | MsgIntTooLarge

datatype resp_data =
  IdData int
| ScorePage "ScoreItem list" int int int
| ReportPage "ReportItem list" int int int

record APIResponse =
  ok :: bool
  data :: "resp_data option"
  error :: "message option"

datatype http_exception = HTTPException int message

type_synonym outcome = "http_exception + APIResponse"

definition REPORT_UPLOAD_PWD :: string where
  "REPORT_UPLOAD_PWD = ''123''"

definition REPORT_ADMIN_PWD :: string where
  "REPORT_ADMIN_PWD = ''123''"

section \<open>Python and SQL helpers\<close>

text \<open>\<open>x or d\<close> on an optional integer: \<open>None\<close> and \<open>0\<close> are falsy.\<close>

definition int_or :: "int option \<Rightarrow> int \<Rightarrow> int" where
  "int_or x d = (case x of None \<Rightarrow> d | Some v \<Rightarrow> if v = 0 then d else v)"

text \<open>\<open>x or None\<close> on an optional string: \<open>None\<close> and the empty string are falsy.\<close>

definition str_or_None :: "string option \<Rightarrow> string option" where
  "str_or_None x = (case x of None \<Rightarrow> None | Some v \<Rightarrow> if v = [] then None else Some v)"

text \<open>The decimal text of an integer, as an f-string prints it.\<close>

definition digit_char :: "nat \<Rightarrow> char" where
  "digit_char d = ''0123456789'' ! d"

fun str_nat :: "nat \<Rightarrow> string" where
  "str_nat n =
     (if n < 10 then [digit_char n] else str_nat (n div 10) @ [digit_char (n mod 10)])"

definition str_int :: "int \<Rightarrow> string" where
  "str_int i = (if i < 0 then CHR ''-'' # str_nat (nat (- i)) else str_nat (nat i))"

text \<open>
  \<open>INTEGER PRIMARY KEY AUTOINCREMENT\<close>: the new id is one more than the largest id the
  table has held, and 1 in an empty table. No statement of the program removes a row, so
  the largest id ever held is the largest id present. The table is taken not to have
  used up its ids: the largest id it holds is below \<open>2^63 - 1\<close>.
\<close>

definition next_rowid :: "int list \<Rightarrow> int" where
  "next_rowid ids = fold max ids 0 + 1"

text \<open>
  An SQLite \<open>INTEGER\<close> is a signed 64-bit number. \<open>sqlite3\<close> raises \<open>OverflowError\<close> when
  a statement is given a Python integer outside this range as a parameter, before the
  statement runs; \<open>None\<close> is bound as \<open>NULL\<close>.
\<close>

definition sqlite_int_ok :: "int \<Rightarrow> bool" where
  "sqlite_int_ok v \<longleftrightarrow> - 9223372036854775808 \<le> v \<and> v \<le> 9223372036854775807"

definition sqlite_opt_ok :: "int option \<Rightarrow> bool" where
  "sqlite_opt_ok x = (case x of None \<Rightarrow> True | Some v \<Rightarrow> sqlite_int_ok v)"

text \<open>\<open>UPDATE t SET ... WHERE ...\<close>: every row that satisfies the condition is rewritten.\<close>

definition sql_update :: "('r \<Rightarrow> bool) \<Rightarrow> ('r \<Rightarrow> 'r) \<Rightarrow> 'r list \<Rightarrow> 'r list" where
  "sql_update cond upd rows = map (\<lambda>r. if cond r then upd r else r) rows"

text \<open>
  \<open>LIMIT ? OFFSET ?\<close>: a negative offset skips nothing, a negative limit is no limit.
\<close>

definition sql_limit_offset :: "int \<Rightarrow> int \<Rightarrow> 'r list \<Rightarrow> 'r list" where
  "sql_limit_offset lim off rows =
     (let rest = drop (nat off) rows in if lim < 0 then rest else take (nat lim) rest)"

text \<open>
  \<open>ORDER BY score DESC, created_at DESC\<close> and \<open>ORDER BY created_at DESC\<close>: the rows sorted
  on the negated keys, the pair ordered lexicographically. SQL leaves the order of rows
  with equal keys open, and SQLite's choice depends on its query plan; the model keeps
  them in table order, and no theorem below rests on that choice.
\<close>

definition order_scores :: "score_row list \<Rightarrow> score_row list" where
  "order_scores rows = sort_key (\<lambda>r. (- sc_score r, - sc_created_at r)) rows"

definition order_reports :: "report_row list \<Rightarrow> report_row list" where
  "order_reports rows = sort_key (\<lambda>r. - rp_created_at r) rows"

section \<open>Password checks\<close>

text \<open>
  \<^verbatim>\<open>
  def _require_upload_pwd(request):
      pwd = request.headers.get("X-Report-Pwd", "")
      if pwd != REPORT_UPLOAD_PWD: raise HTTPException(status_code=403, ...)
  \<close>
  and the same for the administrative password.
\<close>

definition headers_get :: "Request \<Rightarrow> string \<Rightarrow> string \<Rightarrow> string" where
  "headers_get request name dflt = (case headers request name of None \<Rightarrow> dflt | Some v \<Rightarrow> v)"

definition require_upload_pwd :: "Request \<Rightarrow> http_exception + unit" where
  "require_upload_pwd request =
     (let pwd = headers_get request ''X-Report-Pwd'' ''''
      in if pwd \<noteq> REPORT_UPLOAD_PWD then Inl (HTTPException 403 MsgUploadPwd) else Inr ())"

definition require_admin_pwd :: "Request \<Rightarrow> http_exception + unit" where
  "require_admin_pwd request =
     (let pwd = headers_get request ''X-Report-Pwd'' ''''
      in if pwd \<noteq> REPORT_ADMIN_PWD then Inl (HTTPException 403 MsgAdminPwd) else Inr ())"

section \<open>Saving an image\<close>

text \<open>
  \<open>re.match(r'^data:(image/[^;]+);base64,(.+)$', data_url)\<close>. After \<open>data:image/\<close> the
  class \<open>[^;]+\<close> takes every character up to the first semicolon and needs at least one;
  \<open>;base64,\<close> must follow; \<open>.+\<close> takes the characters up to the first line feed and
  needs at least one, and \<open>$\<close> holds at the end of the string or before a line feed that
  ends it. The result is the pair of the two groups.
\<close>

definition match_data_url :: "string \<Rightarrow> (string \<times> string) option" where
  "match_data_url data_url =
     (if \<not> startswith data_url ''data:image/'' then None
      else
        let rest = drop 11 data_url;
            subtype = takeWhile (\<lambda>c. c \<noteq> CHR '';'') rest;
            after = dropWhile (\<lambda>c. c \<noteq> CHR '';'') rest
        in if subtype = [] \<or> \<not> startswith after '';base64,'' then None
           else
             let body = drop 8 after;
                 line = takeWhile (\<lambda>c. c \<noteq> CHR 0x0A) body;
                 tail = dropWhile (\<lambda>c. c \<noteq> CHR 0x0A) body
             in if line \<noteq> [] \<and> (tail = [] \<or> tail = [CHR 0x0A])
                then Some (''image/'' @ subtype, line) else None)"

definition ext_map :: "(string \<times> string) list" where
  "ext_map =
     [(''image/jpeg'', ''jpg''), (''image/jpg'', ''jpg''), (''image/png'', ''png''),
      (''image/webp'', ''webp''), (''image/gif'', ''gif''), (''image/bmp'', ''bmp'')]"

text \<open>\<open>ext_map.get(mime, 'jpg')\<close>.\<close>

definition ext_of :: "string \<Rightarrow> string" where
  "ext_of mime = (case map_of ext_map mime of None \<Rightarrow> ''jpg'' | Some e \<Rightarrow> e)"

text \<open>
  \<^verbatim>\<open>
  def _save_data_url_to_file(data_url):
      if not data_url: return None
      try:
          m = re.match(...)
          if not m: return None
          mime = m.group(1).lower(); b64 = m.group(2)
          ext = ext_map.get(mime, 'jpg')
          raw = base64.b64decode(b64)
          fname = f"{int(time.time()*1000)}_{uuid.uuid4().hex[:8]}.{ext}"
          with open(os.path.join(UPLOADS_DIR, fname), 'wb') as f: f.write(raw)
          return f"/uploads/{fname}"
      except Exception: return None
  \<close>
  The function takes the uploads directory and returns it with the result. A failing
  decoder is the \<open>except\<close> branch; the write itself is taken to succeed.
\<close>

definition save_data_url_to_file ::
  "env \<Rightarrow> string \<Rightarrow> (string \<rightharpoonup> string) \<Rightarrow> string option \<times> (string \<rightharpoonup> string)" where
  "save_data_url_to_file e data_url dir =
     (if data_url = [] then (None, dir)
      else case match_data_url data_url of
        None \<Rightarrow> (None, dir)
      | Some (g1, b64) \<Rightarrow>
          let mime = str_lower e g1;
              ext = ext_of mime
          in (case b64decode e b64 of
                None \<Rightarrow> (None, dir)
              | Some raw \<Rightarrow>
                  let fname = str_int (time_ms e) @ ''_'' @ take 8 (uuid4_hex e) @ ''.'' @ ext
                  in (Some (''/uploads/'' @ fname), dir(fname \<mapsto> raw))))"

section \<open>Scores\<close>

text \<open>
  \<^verbatim>\<open>
  def submit_score(payload):
      if contains_mgc(payload.playerName, _mgc) or contains_mgc(payload.character, _mgc):
          return APIResponse(ok=False, error=...)
      created_at = payload.ts or int(time.time())
      try:
          cur.execute("INSERT INTO scores(player_name, character, score, found_count, created_at) ...",
              (payload.playerName, payload.character, int(payload.score),
               int(payload.foundCount or 0), int(created_at)))
          return APIResponse(ok=True, data={"id": cur.lastrowid})
      except Exception as e:
          raise HTTPException(status_code=500, detail=str(e))
  \<close>
  The word list \<open>_mgc\<close> is loaded once at start and is a parameter of the handlers. Every
  handler runs its statements inside \<open>try\<close> and answers an exception with status 500. The
  exception that the handler's own input can cause is the \<open>OverflowError\<close> of an integer
  parameter outside the 64-bit range; it is the \<open>except\<close> branch of the model. The store
  is taken to carry out every statement whose parameters it can bind.
\<close>

definition submit_score :: "env \<Rightarrow> string list \<Rightarrow> ScoreSubmit \<Rightarrow> state \<Rightarrow> outcome \<times> state" where
  "submit_score e mgc payload st =
     (if contains_mgc (str_lower e) (Some (ss_playerName payload)) mgc
         \<or> contains_mgc (str_lower e) (Some (ss_character payload)) mgc
      then (Inr \<lparr>ok = False, data = None, error = Some MsgScoreBanned\<rparr>, st)
      else
        let created_at = int_or (ss_ts payload) (time_s e);
            found_count = int_or (Some (ss_foundCount payload)) 0
        in if \<not> (sqlite_int_ok (ss_score payload) \<and> sqlite_int_ok found_count
                  \<and> sqlite_int_ok created_at)
           then (Inl (HTTPException 500 MsgIntTooLarge), st)
           else
             let lastrowid = next_rowid (map sc_id (scores st));
                 row = \<lparr>sc_id = lastrowid,
                        sc_player_name = ss_playerName payload,
                        sc_character = ss_character payload,
                        sc_score = ss_score payload,
                        sc_found_count = found_count,
                        sc_created_at = created_at\<rparr>
             in (Inr \<lparr>ok = True, data = Some (IdData lastrowid), error = None\<rparr>,
                 st\<lparr>scores := scores st @ [row]\<rparr>))"

definition score_item :: "score_row \<Rightarrow> ScoreItem" where
  "score_item r =
     \<lparr>si_id = sc_id r, si_playerName = sc_player_name r, si_character = sc_character r,
      si_score = sc_score r, si_foundCount = sc_found_count r, si_createdAt = sc_created_at r\<rparr>"

text \<open>
  \<^verbatim>\<open>
  def leaderboard(page=1, limit=20):
      page = max(1, page); limit = max(1, min(50, limit)); offset = (page - 1) * limit
      try:
          total = SELECT COUNT(*) FROM scores
          rows = SELECT ... FROM scores ORDER BY score DESC, created_at DESC LIMIT ? OFFSET ?
                 with (limit, offset)
          return APIResponse(ok=True, data={"items": ..., "total": total, "page": page, "limit": limit})
      except Exception as e:
          raise HTTPException(status_code=500, detail=str(e))
  \<close>
  The limit and the offset are the parameters of the second statement.
\<close>

definition leaderboard :: "int \<Rightarrow> int \<Rightarrow> state \<Rightarrow> outcome" where
  "leaderboard page0 limit0 st =
     (let page = max 1 page0;
          limit = max 1 (min 50 limit0);
          offset = (page - 1) * limit;
          total = int (length (scores st))
      in if \<not> (sqlite_int_ok limit \<and> sqlite_int_ok offset)
         then Inl (HTTPException 500 MsgIntTooLarge)
         else
           let rows = sql_limit_offset limit offset (order_scores (scores st));
               items = map score_item rows
           in Inr \<lparr>ok = True, data = Some (ScorePage items total page limit), error = None\<rparr>)"

section \<open>Reports\<close>

text \<open>
  \<^verbatim>\<open>
  def submit_report(payload, request):
      _require_upload_pwd(request)
      if contains_mgc(payload.text, _mgc): return APIResponse(ok=False, error=...)
      created_at = payload.ts or int(time.time())
      try:
          img_path = None
          if payload.imgData: img_path = _save_data_url_to_file(payload.imgData)
          cur.execute("INSERT INTO reports(text, npc, x, y, created_at, img_data) VALUES (...)",
              (payload.text, payload.npc or None, payload.x, payload.y, int(created_at), img_path or None))
          return APIResponse(ok=True, data={"id": cur.lastrowid})
      except Exception as e:
          raise HTTPException(status_code=500, detail=str(e))
  \<close>
  The columns \<open>audited\<close> and \<open>deleted\<close> take their default 0. The image is saved before
  the \<open>INSERT\<close> is given its parameters, so an integer that cannot be bound leaves the
  file written and no row inserted.
\<close>

definition submit_report ::
  "env \<Rightarrow> string list \<Rightarrow> ReportSubmit \<Rightarrow> Request \<Rightarrow> state \<Rightarrow> outcome \<times> state" where
  "submit_report e mgc payload request st =
     (case require_upload_pwd request of
        Inl exn \<Rightarrow> (Inl exn, st)
      | Inr _ \<Rightarrow>
          if contains_mgc (str_lower e) (Some (rs_text payload)) mgc
          then (Inr \<lparr>ok = False, data = None, error = Some MsgReportBanned\<rparr>, st)
          else
            let created_at = int_or (rs_ts payload) (time_s e);
                (img_path, dir) =
                   (case str_or_None (rs_imgData payload) of
                      None \<Rightarrow> (None, uploads st)
                    | Some d \<Rightarrow> save_data_url_to_file e d (uploads st))
            in if \<not> (sqlite_opt_ok (rs_x payload) \<and> sqlite_opt_ok (rs_y payload)
                      \<and> sqlite_int_ok created_at)
               then (Inl (HTTPException 500 MsgIntTooLarge), st\<lparr>uploads := dir\<rparr>)
               else
                 let lastrowid = next_rowid (map rp_id (reports st));
                     row = \<lparr>rp_id = lastrowid,
                            rp_text = rs_text payload,
                            rp_npc = str_or_None (rs_npc payload),
                            rp_x = rs_x payload,
                            rp_y = rs_y payload,
                            rp_created_at = created_at,
                            rp_audited = 0,
                            rp_deleted = 0,
                            rp_img_data = str_or_None img_path\<rparr>
                 in (Inr \<lparr>ok = True, data = Some (IdData lastrowid), error = None\<rparr>,
                     st\<lparr>reports := reports st @ [row], uploads := dir\<rparr>))"

definition report_item :: "report_row \<Rightarrow> ReportItem" where
  "report_item r =
     \<lparr>ri_id = rp_id r, ri_text = rp_text r, ri_npc = rp_npc r, ri_x = rp_x r, ri_y = rp_y r,
      ri_createdAt = rp_created_at r,
      ri_audited = int_or (Some (rp_audited r)) 0,
      ri_deleted = int_or (Some (rp_deleted r)) 0,
      ri_imgData = rp_img_data r\<rparr>"

text \<open>
  \<^verbatim>\<open>
  def list_reports(page=1, limit=20):
      page = max(1, page); limit = max(1, min(50, limit)); offset = (page - 1) * limit
      try:
          total = SELECT COUNT(*) FROM reports
          rows = SELECT ... FROM reports WHERE deleted = 0 ORDER BY created_at DESC LIMIT ? OFFSET ?
                 with (limit, offset)
          return APIResponse(ok=True, data={"items": ..., "total": total, "page": page, "limit": limit})
      except Exception as e:
          raise HTTPException(status_code=500, detail=str(e))
  \<close>
\<close>

definition list_reports :: "int \<Rightarrow> int \<Rightarrow> state \<Rightarrow> outcome" where
  "list_reports page0 limit0 st =
     (let page = max 1 page0;
          limit = max 1 (min 50 limit0);
          offset = (page - 1) * limit;
          total = int (length (reports st))
      in if \<not> (sqlite_int_ok limit \<and> sqlite_int_ok offset)
         then Inl (HTTPException 500 MsgIntTooLarge)
         else
           let rows = sql_limit_offset limit offset
                        (order_reports (filter (\<lambda>r. rp_deleted r = 0) (reports st)));
               items = map report_item rows
           in Inr \<lparr>ok = True, data = Some (ReportPage items total page limit), error = None\<rparr>)"

text \<open>
  \<^verbatim>\<open>
  def audit_report(payload, request):
      _require_admin_pwd(request)
      try:
          cur.execute("UPDATE reports SET audited = ? WHERE id = ?", (1 if payload.audited else 0, payload.id))
          return APIResponse(ok=True)
      except Exception as e:
          raise HTTPException(status_code=500, detail=str(e))

  def delete_report(payload, request):
      _require_admin_pwd(request)
      try:
          cur.execute("UPDATE reports SET deleted = 1 WHERE id = ?", (payload.id,))
          return APIResponse(ok=True)
      except Exception as e:
          raise HTTPException(status_code=500, detail=str(e))
  \<close>
  The id is a parameter of the statement; an id that cannot be bound is the \<open>except\<close>
  branch, and the table is left as it was.
\<close>

definition audit_report :: "ReportAudit \<Rightarrow> Request \<Rightarrow> state \<Rightarrow> outcome \<times> state" where
  "audit_report payload request st =
     (case require_admin_pwd request of
        Inl exn \<Rightarrow> (Inl exn, st)
      | Inr _ \<Rightarrow>
          if \<not> sqlite_int_ok (ra_id payload)
          then (Inl (HTTPException 500 MsgIntTooLarge), st)
          else
            (Inr \<lparr>ok = True, data = None, error = None\<rparr>,
             st\<lparr>reports :=
                  sql_update (\<lambda>r. rp_id r = ra_id payload)
                    (\<lambda>r. r\<lparr>rp_audited := (if ra_audited payload then 1 else 0)\<rparr>)
                    (reports st)\<rparr>))"

definition delete_report :: "ReportDelete \<Rightarrow> Request \<Rightarrow> state \<Rightarrow> outcome \<times> state" where
  "delete_report payload request st =
     (case require_admin_pwd request of
        Inl exn \<Rightarrow> (Inl exn, st)
      | Inr _ \<Rightarrow>
          if \<not> sqlite_int_ok (rd_id payload)
          then (Inl (HTTPException 500 MsgIntTooLarge), st)
          else
            (Inr \<lparr>ok = True, data = None, error = None\<rparr>,
             st\<lparr>reports :=
                  sql_update (\<lambda>r. rp_id r = rd_id payload) (\<lambda>r. r\<lparr>rp_deleted := 1\<rparr>)
                    (reports st)\<rparr>))"

section \<open>The service as a whole\<close>

text \<open>
  The operations that read or write the state, as requests; \<open>handle\<close> dispatches one
  request, \<open>run\<close> serves a sequence of them, each with what it reads from outside.
\<close>

datatype api_request =
  SubmitScore ScoreSubmit
| Leaderboard int int
| SubmitReport ReportSubmit Request
| ListReports int int
| AuditReport ReportAudit Request
| DeleteReport ReportDelete Request

fun handle :: "string list \<Rightarrow> env \<Rightarrow> api_request \<Rightarrow> state \<Rightarrow> outcome \<times> state" where
  "handle mgc e (SubmitScore payload) st = submit_score e mgc payload st"
| "handle mgc e (Leaderboard page limit) st = (leaderboard page limit st, st)"
| "handle mgc e (SubmitReport payload request) st = submit_report e mgc payload request st"
| "handle mgc e (ListReports page limit) st = (list_reports page limit st, st)"
| "handle mgc e (AuditReport payload request) st = audit_report payload request st"
| "handle mgc e (DeleteReport payload request) st = delete_report payload request st"

fun run :: "string list \<Rightarrow> (env \<times> api_request) list \<Rightarrow> state \<Rightarrow> state" where
  "run mgc [] st = st"
| "run mgc ((e, rq) # rest) st = run mgc rest (snd (handle mgc e rq st))"

section \<open>Notions of the specification\<close>

text \<open>
  The leaderboard order on rows and on items: \<open>a\<close> may stand before \<open>b\<close> when its score is
  higher, or the scores are equal and it is not older.
\<close>

definition score_before :: "score_row \<Rightarrow> score_row \<Rightarrow> bool" where
  "score_before a b =
     (sc_score a > sc_score b \<or> (sc_score a = sc_score b \<and> sc_created_at a \<ge> sc_created_at b))"

definition item_before :: "ScoreItem \<Rightarrow> ScoreItem \<Rightarrow> bool" where
  "item_before a b =
     (si_score a > si_score b \<or> (si_score a = si_score b \<and> si_createdAt a \<ge> si_createdAt b))"

text \<open>A submission is accepted when the handler answers \<open>ok: true\<close>.\<close>

definition accepted :: "outcome \<Rightarrow> bool" where
  "accepted r = (case r of Inl _ \<Rightarrow> False | Inr resp \<Rightarrow> ok resp)"

text \<open>The items and the total of a reports listing.\<close>

definition report_items_of :: "outcome \<Rightarrow> ReportItem list" where
  "report_items_of r =
     (case r of
        Inr resp \<Rightarrow> (case data resp of Some (ReportPage items _ _ _) \<Rightarrow> items | _ \<Rightarrow> [])
      | Inl _ \<Rightarrow> [])"

definition report_total_of :: "outcome \<Rightarrow> int option" where
  "report_total_of r =
     (case r of
        Inr resp \<Rightarrow> (case data resp of Some (ReportPage _ n _ _) \<Rightarrow> Some n | _ \<Rightarrow> None)
      | Inl _ \<Rightarrow> None)"

text \<open>
  A data URL that carries an image: \<open>data:image/<subtype>;base64,<payload>\<close>, with a
  non-empty subtype free of semicolons and a non-empty payload on one line; a single line
  feed may end the string.
\<close>

definition image_data_url :: "string \<Rightarrow> string \<Rightarrow> string \<Rightarrow> bool" where
  "image_data_url d subtype payload \<longleftrightarrow>
     subtype \<noteq> [] \<and> CHR '';'' \<notin> set subtype \<and> payload \<noteq> [] \<and> CHR 0x0A \<notin> set payload
     \<and> (d = ''data:image/'' @ subtype @ '';base64,'' @ payload
        \<or> d = ''data:image/'' @ subtype @ '';base64,'' @ payload @ [CHR 0x0A])"

text \<open>
  The generated file name: millisecond timestamp, the first eight hex digits of a random
  UUID, and the extension.
\<close>

definition upload_name :: "env \<Rightarrow> string \<Rightarrow> string" where
  "upload_name e ext = str_int (time_ms e) @ ''_'' @ take 8 (uuid4_hex e) @ ''.'' @ ext"

text \<open>
  \<open>same_report r r'\<close>: the stored row \<open>r'\<close> is the row \<open>r\<close> up to its two moderation flags.
  \<open>soft_deleted r st\<close>: the state still holds the row \<open>r\<close>, marked deleted, and every row
  with its id is marked deleted.
\<close>

definition same_report :: "report_row \<Rightarrow> report_row \<Rightarrow> bool" where
  "same_report r r' \<longleftrightarrow> r'\<lparr>rp_audited := rp_audited r, rp_deleted := rp_deleted r\<rparr> = r"

definition soft_deleted :: "report_row \<Rightarrow> state \<Rightarrow> bool" where
  "soft_deleted r st \<longleftrightarrow>
     (\<exists>r' \<in> set (reports st). same_report r r' \<and> rp_deleted r' = 1)
     \<and> (\<forall>r' \<in> set (reports st). rp_id r' = rp_id r \<longrightarrow> rp_deleted r' = 1)"

section \<open>Sample inputs\<close>

text \<open>
  Concrete inputs on which the theorems below are instantiated. \<open>ascii_lower\<close> is
  \<open>str.lower\<close> on ASCII text: the capitals A to Z become small letters, every other
  character is kept. \<open>sigma_lower\<close> is \<open>str.lower\<close> on ASCII text and on two Greek
  strings: capital alpha, capital sigma (bytes CE 91 CE A3) becomes small alpha, final
  small sigma (CE B1 CF 82), and capital alpha, capital sigma, capital alpha becomes small
  alpha, medial small sigma (CF 83), small alpha.
\<close>

definition lower_char :: "char \<Rightarrow> char" where
  "lower_char c =
     (case map_of (zip ''ABCDEFGHIJKLMNOPQRSTUVWXYZ'' ''abcdefghijklmnopqrstuvwxyz'') c of
        None \<Rightarrow> c
      | Some l \<Rightarrow> l)"

definition ascii_lower :: "string \<Rightarrow> string" where
  "ascii_lower s = map lower_char s"


definition sample_env :: env where
  "sample_env =
     \<lparr>time_s = 1700000000, time_ms = 1700000000123,
      uuid4_hex = ''0123456789abcdef0123456789abcdef'',
      b64decode = (\<lambda>s. if s = ''aGk='' then Some ''hi'' else None),
      str_lower = ascii_lower\<rparr>"

definition with_pwd :: "string \<Rightarrow> Request" where
  "with_pwd p = \<lparr>headers = [''X-Report-Pwd'' \<mapsto> p]\<rparr>"

definition no_pwd :: Request where
  "no_pwd = \<lparr>headers = Map.empty\<rparr>"

definition sample_report :: "int \<Rightarrow> int \<Rightarrow> int \<Rightarrow> report_row" where
  "sample_report i created del =
     \<lparr>rp_id = i, rp_text = ''seen at the gate'', rp_npc = None, rp_x = None, rp_y = None,
      rp_created_at = created, rp_audited = 0, rp_deleted = del, rp_img_data = None\<rparr>"

definition sample_score :: "int \<Rightarrow> int \<Rightarrow> int \<Rightarrow> score_row" where
  "sample_score i sc created =
     \<lparr>sc_id = i, sc_player_name = ''Ann'', sc_character = ''Fox'', sc_score = sc,
      sc_found_count = 3, sc_created_at = created\<rparr>"

definition empty_state :: state where
  "empty_state = \<lparr>scores = [], reports = [], uploads = Map.empty\<rparr>"

definition sample_submit :: "int option \<Rightarrow> string option \<Rightarrow> ReportSubmit" where
  "sample_submit t img =
     \<lparr>rs_text = ''seen at the gate'', rs_npc = None, rs_x = None, rs_y = None, rs_ts = t,
      rs_imgData = img\<rparr>"

section \<open>Properties of the filter\<close>

lemma startswith_iff: "startswith s p \<longleftrightarrow> (\<exists>post. s = p @ post)"
  by (induction s p rule: startswith.induct) auto

lemma str_in_iff: "str_in sub s \<longleftrightarrow> (\<exists>pre post. s = pre @ sub @ post)"
proof (induction s)
  case Nil
  show ?case by auto
next
  case (Cons c s)
  show ?case
  proof
    assume "str_in sub (c # s)"
    then consider "startswith (c # s) sub" | "str_in sub s" by auto
    then show "\<exists>pre post. c # s = pre @ sub @ post"
    proof cases
      case 1
      then obtain post where "c # s = sub @ post" by (auto simp: startswith_iff)
      then have "c # s = [] @ sub @ post" by simp
      then show ?thesis by blast
    next
      case 2
      then obtain pre post where "s = pre @ sub @ post" using Cons.IH by blast
      then have "c # s = (c # pre) @ sub @ post" by simp
      then show ?thesis by blast
    qed
  next
    assume "\<exists>pre post. c # s = pre @ sub @ post"
    then obtain pre post where eq: "c # s = pre @ sub @ post" by blast
    show "str_in sub (c # s)"
    proof (cases pre)
      case Nil
      with eq have "startswith (c # s) sub" by (auto simp: startswith_iff)
      then show ?thesis by simp
    next
      case (Cons a pre')
      with eq have "s = pre' @ sub @ post" by simp
      then have "str_in sub s" using Cons.IH by blast
      then show ?thesis by simp
    qed
  qed
qed

lemma mgc_loop_iff:
  "mgc_loop lw lowered ws \<longleftrightarrow> (\<exists>w \<in> set ws. w \<noteq> [] \<and> str_in (lw w) lowered)"
  by (induction ws) auto

lemma contains_mgc_Some_iff:
  "contains_mgc lw (Some t) mgc_words \<longleftrightarrow>
     t \<noteq> [] \<and> (\<exists>w \<in> set mgc_words. w \<noteq> [] \<and> lowered_substring lw w t)"
  by (simp add: contains_mgc_def mgc_loop_iff str_in_iff lowered_substring_def)

lemma map_split:
  "map f t = a @ b \<Longrightarrow> \<exists>ta tb. t = ta @ tb \<and> map f ta = a \<and> map f tb = b"
  by (metis append_eq_map_conv)

lemma lowered_substring_charwise:
  assumes "\<forall>s. lw s = map f s"
  shows "lowered_substring lw w t \<longleftrightarrow> ci_substring lw w t"
proof
  assume "lowered_substring lw w t"
  then obtain pre post where "map f t = pre @ map f w @ post"
    using assms by (auto simp: lowered_substring_def)
  then obtain ta tb where t: "t = ta @ tb" and "map f tb = map f w @ post"
    using map_split by blast
  then obtain s tc where "tb = s @ tc" and "map f s = map f w"
    using map_split by blast
  with t have "t = ta @ s @ tc \<and> lw s = lw w" using assms by simp
  then show "ci_substring lw w t" unfolding ci_substring_def by blast
next
  assume "ci_substring lw w t"
  then obtain pre s post where "t = pre @ s @ post" and "lw s = lw w"
    unfolding ci_substring_def by blast
  then have "lw t = lw pre @ lw w @ lw post" using assms by simp
  then show "lowered_substring lw w t" unfolding lowered_substring_def by blast
qed






section \<open>Properties of the password checks\<close>

lemma require_upload_pwd_iff:
  "require_upload_pwd request = Inr () \<longleftrightarrow> headers request ''X-Report-Pwd'' = Some REPORT_UPLOAD_PWD"
  by (simp add: require_upload_pwd_def headers_get_def REPORT_UPLOAD_PWD_def
      split: option.splits)

lemma require_upload_pwd_reject:
  "headers request ''X-Report-Pwd'' \<noteq> Some REPORT_UPLOAD_PWD
   \<Longrightarrow> require_upload_pwd request = Inl (HTTPException 403 MsgUploadPwd)"
  by (auto simp: require_upload_pwd_def headers_get_def REPORT_UPLOAD_PWD_def
      split: option.splits)

lemma require_admin_pwd_iff:
  "require_admin_pwd request = Inr () \<longleftrightarrow> headers request ''X-Report-Pwd'' = Some REPORT_ADMIN_PWD"
  by (simp add: require_admin_pwd_def headers_get_def REPORT_ADMIN_PWD_def
      split: option.splits)

lemma require_admin_pwd_reject:
  "headers request ''X-Report-Pwd'' \<noteq> Some REPORT_ADMIN_PWD
   \<Longrightarrow> require_admin_pwd request = Inl (HTTPException 403 MsgAdminPwd)"
  by (auto simp: require_admin_pwd_def headers_get_def REPORT_ADMIN_PWD_def
      split: option.splits)

lemma with_pwd_header [simp]: "headers (with_pwd p) ''X-Report-Pwd'' = Some p"
  by (simp add: with_pwd_def)

lemma no_pwd_header [simp]: "headers no_pwd name = None"
  by (simp add: no_pwd_def)

text \<open>
  C5. A report submission whose \<open>X-Report-Pwd\<close> header is missing or differs from the
  upload password is answered with the authorization error 403, and the state it leaves
  is the state it found: both tables and the uploads directory.
\<close>

theorem submit_report_unauthorized:
  assumes "headers request ''X-Report-Pwd'' \<noteq> Some REPORT_UPLOAD_PWD"
  shows "submit_report e mgc payload request st = (Inl (HTTPException 403 MsgUploadPwd), st)"
  using require_upload_pwd_reject [OF assms] by (simp add: submit_report_def)

theorem submit_report_unauthorized_witness:
  "headers no_pwd ''X-Report-Pwd'' \<noteq> Some REPORT_UPLOAD_PWD
   \<and> headers (with_pwd ''1234'') ''X-Report-Pwd'' \<noteq> Some REPORT_UPLOAD_PWD
   \<and> submit_report sample_env []
        (sample_submit None (Some ''data:image/png;base64,aGk='')) no_pwd empty_state
       = (Inl (HTTPException 403 MsgUploadPwd), empty_state)
   \<and> submit_report sample_env []
        (sample_submit None (Some ''data:image/png;base64,aGk='')) (with_pwd ''1234'') empty_state
       = (Inl (HTTPException 403 MsgUploadPwd), empty_state)"
proof -
  have a: "headers no_pwd ''X-Report-Pwd'' \<noteq> Some REPORT_UPLOAD_PWD"
    by simp
  have b: "headers (with_pwd ''1234'') ''X-Report-Pwd'' \<noteq> Some REPORT_UPLOAD_PWD"
    by (simp add: REPORT_UPLOAD_PWD_def)
  show ?thesis
    using a b submit_report_unauthorized [OF a] submit_report_unauthorized [OF b] by simp
qed

section \<open>Properties of audit and delete\<close>

lemma sql_update_idem:
  assumes "\<And>r. cond (upd r) = cond r" and "\<And>r. upd (upd r) = upd r"
  shows "sql_update cond upd (sql_update cond upd rows) = sql_update cond upd rows"
  using assms by (induction rows) (simp_all add: sql_update_def)

lemma sql_update_no_match:
  "\<forall>r \<in> set rows. \<not> cond r \<Longrightarrow> sql_update cond upd rows = rows"
  by (induction rows) (simp_all add: sql_update_def)

lemma audit_report_authorized:
  "headers request ''X-Report-Pwd'' = Some REPORT_ADMIN_PWD \<Longrightarrow> sqlite_int_ok (ra_id payload) \<Longrightarrow>
   audit_report payload request st =
     (Inr \<lparr>ok = True, data = None, error = None\<rparr>,
      st\<lparr>reports :=
           sql_update (\<lambda>r. rp_id r = ra_id payload)
             (\<lambda>r. r\<lparr>rp_audited := (if ra_audited payload then 1 else 0)\<rparr>) (reports st)\<rparr>)"
  using require_admin_pwd_iff [of request] by (simp add: audit_report_def)

lemma delete_report_authorized:
  "headers request ''X-Report-Pwd'' = Some REPORT_ADMIN_PWD \<Longrightarrow> sqlite_int_ok (rd_id payload) \<Longrightarrow>
   delete_report payload request st =
     (Inr \<lparr>ok = True, data = None, error = None\<rparr>,
      st\<lparr>reports :=
           sql_update (\<lambda>r. rp_id r = rd_id payload) (\<lambda>r. r\<lparr>rp_deleted := 1\<rparr>) (reports st)\<rparr>)"
  using require_admin_pwd_iff [of request] by (simp add: delete_report_def)

lemma audit_report_overflow:
  "headers request ''X-Report-Pwd'' = Some REPORT_ADMIN_PWD \<Longrightarrow> \<not> sqlite_int_ok (ra_id payload) \<Longrightarrow>
   audit_report payload request st = (Inl (HTTPException 500 MsgIntTooLarge), st)"
  using require_admin_pwd_iff [of request] by (simp add: audit_report_def)

lemma delete_report_overflow:
  "headers request ''X-Report-Pwd'' = Some REPORT_ADMIN_PWD \<Longrightarrow> \<not> sqlite_int_ok (rd_id payload) \<Longrightarrow>
   delete_report payload request st = (Inl (HTTPException 500 MsgIntTooLarge), st)"
  using require_admin_pwd_iff [of request] by (simp add: delete_report_def)

lemma audit_report_unauthorized:
  "headers request ''X-Report-Pwd'' \<noteq> Some REPORT_ADMIN_PWD \<Longrightarrow>
   audit_report payload request st = (Inl (HTTPException 403 MsgAdminPwd), st)"
  using require_admin_pwd_reject [of request] by (simp add: audit_report_def)

lemma delete_report_unauthorized:
  "headers request ''X-Report-Pwd'' \<noteq> Some REPORT_ADMIN_PWD \<Longrightarrow>
   delete_report payload request st = (Inl (HTTPException 403 MsgAdminPwd), st)"
  using require_admin_pwd_reject [of request] by (simp add: delete_report_def)

lemma audit_report_twice:
  "audit_report pa request (snd (audit_report pa request st)) = audit_report pa request st"
proof (cases "headers request ''X-Report-Pwd'' = Some REPORT_ADMIN_PWD")
  case False
  then show ?thesis by (simp add: audit_report_unauthorized)
next
  case True
  show ?thesis
  proof (cases "sqlite_int_ok (ra_id pa)")
    case False
    with True show ?thesis by (simp add: audit_report_overflow)
  next
    case ok: True
    have "sql_update (\<lambda>r. rp_id r = ra_id pa)
            (\<lambda>r. r\<lparr>rp_audited := (if ra_audited pa then 1 else 0)\<rparr>)
            (sql_update (\<lambda>r. rp_id r = ra_id pa)
               (\<lambda>r. r\<lparr>rp_audited := (if ra_audited pa then 1 else 0)\<rparr>) (reports st))
          = sql_update (\<lambda>r. rp_id r = ra_id pa)
              (\<lambda>r. r\<lparr>rp_audited := (if ra_audited pa then 1 else 0)\<rparr>) (reports st)"
      by (rule sql_update_idem) simp_all
    then show ?thesis using True ok by (simp add: audit_report_authorized)
  qed
qed

lemma delete_report_twice:
  "delete_report pd request (snd (delete_report pd request st)) = delete_report pd request st"
proof (cases "headers request ''X-Report-Pwd'' = Some REPORT_ADMIN_PWD")
  case False
  then show ?thesis by (simp add: delete_report_unauthorized)
next
  case True
  show ?thesis
  proof (cases "sqlite_int_ok (rd_id pd)")
    case False
    with True show ?thesis by (simp add: delete_report_overflow)
  next
    case ok: True
    have "sql_update (\<lambda>r. rp_id r = rd_id pd) (\<lambda>r. r\<lparr>rp_deleted := 1\<rparr>)
            (sql_update (\<lambda>r. rp_id r = rd_id pd) (\<lambda>r. r\<lparr>rp_deleted := 1\<rparr>) (reports st))
          = sql_update (\<lambda>r. rp_id r = rd_id pd) (\<lambda>r. r\<lparr>rp_deleted := 1\<rparr>) (reports st)"
      by (rule sql_update_idem) simp_all
    then show ?thesis using True ok by (simp add: delete_report_authorized)
  qed
qed

text \<open>
  C8. Audit and delete are idempotent: the same request applied a second time gives the
  same answer and leaves the state that the first application left, for every state,
  id, audited value and header.
\<close>

theorem audit_delete_idempotent:
  "audit_report pa request (snd (audit_report pa request st)) = audit_report pa request st
   \<and> delete_report pd request (snd (delete_report pd request st)) = delete_report pd request st"
  using audit_report_twice delete_report_twice by (rule conjI)

theorem audit_delete_idempotent_witness:
  "snd (audit_report \<lparr>ra_id = 5, ra_audited = True\<rparr> (with_pwd ''123'')
     (snd (audit_report \<lparr>ra_id = 5, ra_audited = True\<rparr> (with_pwd ''123'')
        (empty_state\<lparr>reports := [sample_report 5 9 0]\<rparr>))))
   = empty_state\<lparr>reports := [(sample_report 5 9 0)\<lparr>rp_audited := 1\<rparr>]\<rparr>"
proof -
  have "snd (audit_report \<lparr>ra_id = 5, ra_audited = True\<rparr> (with_pwd ''123'')
          (empty_state\<lparr>reports := [sample_report 5 9 0]\<rparr>))
        = empty_state\<lparr>reports := [(sample_report 5 9 0)\<lparr>rp_audited := 1\<rparr>]\<rparr>"
    by (simp add: audit_report_def require_admin_pwd_def headers_get_def REPORT_ADMIN_PWD_def
        sql_update_def sample_report_def sqlite_int_ok_def)
  then show ?thesis
    using audit_delete_idempotent
      [of "\<lparr>ra_id = 5, ra_audited = True\<rparr>" "with_pwd ''123''"
          "empty_state\<lparr>reports := [sample_report 5 9 0]\<rparr>"]
    by simp
qed

text \<open>
  C10, as the claim states it, fails: with the administrative password, audit and delete
  of the id \<open>2^63\<close>, which lies outside the range of an SQLite \<open>INTEGER\<close>, are answered with
  the server error 500, not with \<open>ok: true\<close>.
\<close>

theorem audit_delete_big_id_counterexample:
  "headers (with_pwd ''123'') ''X-Report-Pwd'' = Some REPORT_ADMIN_PWD
   \<and> fst (audit_report \<lparr>ra_id = 9223372036854775808, ra_audited = True\<rparr> (with_pwd ''123'')
          empty_state) = Inl (HTTPException 500 MsgIntTooLarge)
   \<and> fst (delete_report \<lparr>rd_id = 9223372036854775808\<rparr> (with_pwd ''123'') empty_state)
       = Inl (HTTPException 500 MsgIntTooLarge)"
  by (simp add: audit_report_def delete_report_def require_admin_pwd_def headers_get_def
      REPORT_ADMIN_PWD_def sqlite_int_ok_def)

text \<open>
  C10, amended. With the administrative password, audit and delete answer \<open>ok: true\<close> for
  every id in the signed 64-bit range of an SQLite \<open>INTEGER\<close>, and when no report row has
  the id the state is left as it was. For an id outside that range they answer with the
  server error 500 and leave the state as it was.
\<close>

theorem audit_delete_any_bindable_id:
  assumes "headers request ''X-Report-Pwd'' = Some REPORT_ADMIN_PWD"
  shows "(sqlite_int_ok (ra_id pa) \<longrightarrow>
            fst (audit_report pa request st) = Inr \<lparr>ok = True, data = None, error = None\<rparr>
            \<and> ((\<forall>r \<in> set (reports st). rp_id r \<noteq> ra_id pa) \<longrightarrow>
                 snd (audit_report pa request st) = st))
     \<and> (sqlite_int_ok (rd_id pd) \<longrightarrow>
            fst (delete_report pd request st) = Inr \<lparr>ok = True, data = None, error = None\<rparr>
            \<and> ((\<forall>r \<in> set (reports st). rp_id r \<noteq> rd_id pd) \<longrightarrow>
                 snd (delete_report pd request st) = st))
     \<and> (\<not> sqlite_int_ok (ra_id pa) \<longrightarrow>
            audit_report pa request st = (Inl (HTTPException 500 MsgIntTooLarge), st))
     \<and> (\<not> sqlite_int_ok (rd_id pd) \<longrightarrow>
            delete_report pd request st = (Inl (HTTPException 500 MsgIntTooLarge), st))"
  using assms
  by (simp add: audit_report_authorized delete_report_authorized audit_report_overflow
      delete_report_overflow sql_update_no_match)

theorem audit_delete_any_bindable_id_witness:
  "headers (with_pwd ''123'') ''X-Report-Pwd'' = Some REPORT_ADMIN_PWD
   \<and> sqlite_int_ok 7
   \<and> audit_report \<lparr>ra_id = 7, ra_audited = True\<rparr> (with_pwd ''123'')
        (empty_state\<lparr>reports := [sample_report 5 9 0]\<rparr>)
      = (Inr \<lparr>ok = True, data = None, error = None\<rparr>,
         empty_state\<lparr>reports := [sample_report 5 9 0]\<rparr>)
   \<and> delete_report \<lparr>rd_id = 7\<rparr> (with_pwd ''123'')
        (empty_state\<lparr>reports := [sample_report 5 9 0]\<rparr>)
      = (Inr \<lparr>ok = True, data = None, error = None\<rparr>,
         empty_state\<lparr>reports := [sample_report 5 9 0]\<rparr>)"
proof -
  have h: "headers (with_pwd ''123'') ''X-Report-Pwd'' = Some REPORT_ADMIN_PWD"
    by (simp add: REPORT_ADMIN_PWD_def)
  have i: "\<forall>r \<in> set (reports (empty_state\<lparr>reports := [sample_report 5 9 0]\<rparr>)). rp_id r \<noteq> 7"
    by (simp add: sample_report_def)
  have k: "sqlite_int_ok 7" by (simp add: sqlite_int_ok_def)
  show ?thesis
    using h i k audit_delete_any_bindable_id [OF h, of "\<lparr>ra_id = 7, ra_audited = True\<rparr>"
        "empty_state\<lparr>reports := [sample_report 5 9 0]\<rparr>" "\<lparr>rd_id = 7\<rparr>"]
    by (simp add: prod_eq_iff)
qed

section \<open>Properties of the listings\<close>

lemma sql_limit_offset_page:
  "0 \<le> lim \<Longrightarrow> sql_limit_offset lim off rows = take (nat lim) (drop (nat off) rows)"
  by (simp add: sql_limit_offset_def)

lemma limit_bindable: "sqlite_int_ok (max 1 (min 50 limit))"
proof -
  have "1 \<le> max 1 (min 50 limit)" and "max 1 (min 50 limit) \<le> 50" by simp_all
  then show ?thesis unfolding sqlite_int_ok_def by linarith
qed

lemma mset_order_scores: "mset (order_scores rows) = mset rows"
  by (simp add: order_scores_def)

lemma sorted_order_scores: "sorted_wrt score_before (order_scores rows)"
proof -
  have "sorted (map (\<lambda>r. (- sc_score r, - sc_created_at r)) (order_scores rows))"
    unfolding order_scores_def by (rule sorted_sort_key)
  then have "sorted_wrt (\<lambda>a b. (- sc_score a, - sc_created_at a) \<le> (- sc_score b, - sc_created_at b))
               (order_scores rows)"
    by (simp add: sorted_map)
  then show ?thesis
    by (rule sorted_wrt_mono_rel [rotated]) (auto simp: score_before_def less_eq_prod_def)
qed

lemma mset_order_reports: "mset (order_reports rows) = mset rows"
  by (simp add: order_reports_def)

lemma sorted_order_reports:
  "sorted_wrt (\<lambda>a b. rp_created_at a \<ge> rp_created_at b) (order_reports rows)"
proof -
  have "sorted (map (\<lambda>r. - rp_created_at r) (order_reports rows))"
    unfolding order_reports_def by (rule sorted_sort_key)
  then show ?thesis by (simp add: sorted_map)
qed

lemma item_before_score_item: "item_before (score_item a) (score_item b) = score_before a b"
  by (simp add: item_before_def score_before_def score_item_def)

lemma sorted_page:
  "sorted_wrt R rows \<Longrightarrow> sorted_wrt R (take n (drop k rows))"
  by (simp add: sorted_wrt_take sorted_wrt_drop)

lemma length_page:
  assumes "0 \<le> (l::int)"
  shows "int (length (take (nat l) xs)) \<le> l"
proof -
  have "length (take (nat l) xs) \<le> nat l" by simp
  then have "int (length (take (nat l) xs)) \<le> int (nat l)" by (simp only: of_nat_le_iff)
  with assms show ?thesis by simp
qed

lemma leaderboard_eq:
  assumes "sqlite_int_ok ((max 1 page - 1) * max 1 (min 50 limit))"
  shows "leaderboard page limit st =
     Inr \<lparr>ok = True,
          data = Some (ScorePage
                   (map score_item
                      (take (nat (max 1 (min 50 limit)))
                         (drop (nat ((max 1 page - 1) * max 1 (min 50 limit)))
                            (order_scores (scores st)))))
                   (int (length (scores st))) (max 1 page) (max 1 (min 50 limit))),
          error = None\<rparr>"
proof -
  have l: "0 \<le> max 1 (min 50 limit)" by simp
  show ?thesis
    unfolding leaderboard_def Let_def sql_limit_offset_page [OF l]
    using assms limit_bindable [of limit] by simp
qed

lemma leaderboard_overflow:
  assumes "\<not> sqlite_int_ok ((max 1 page - 1) * max 1 (min 50 limit))"
  shows "leaderboard page limit st = Inl (HTTPException 500 MsgIntTooLarge)"
  unfolding leaderboard_def Let_def using assms by simp

text \<open>
  C6, as the claim states it, fails: for a page so large that the offset
  (page - 1) * limit lies outside the range of an SQLite \<open>INTEGER\<close>, here page \<open>2^63 + 1\<close>
  with limit 1, the leaderboard answers with the server error 500 and returns no page.
\<close>

theorem leaderboard_big_page_counterexample:
  "leaderboard 9223372036854775809 1
     (empty_state\<lparr>scores := [sample_score 1 50 10, sample_score 2 70 10]\<rparr>)
   = Inl (HTTPException 500 MsgIntTooLarge)"
  by (simp add: leaderboard_def sqlite_int_ok_def)

text \<open>
  C6, amended. For every state, page and limit the leaderboard clamps the page to at least
  1 and the limit into 1..50. When the offset (page - 1) * limit of the clamped values
  lies in the signed 64-bit range, the answer carries the clamped page and limit, the
  number of score rows as total, and as items the requested slice (limit rows after
  skipping the offset) of a ranking that holds every score row once and is ordered by
  score descending, then creation time descending, each item with the six fields of its
  row; there are at most limit items, and any item standing before another has the
  higher score, or the same score and a creation time that is not earlier. When the
  offset lies outside that range, the answer is the server error 500.
\<close>

theorem leaderboard_page:
  "(sqlite_int_ok ((max 1 page - 1) * max 1 (min 50 limit)) \<longrightarrow>
     (\<exists>items ranked.
        leaderboard page limit st =
          Inr \<lparr>ok = True,
               data = Some (ScorePage items (int (length (scores st)))
                              (max 1 page) (max 1 (min 50 limit))),
               error = None\<rparr>
        \<and> 1 \<le> max 1 page \<and> 1 \<le> max 1 (min 50 limit) \<and> max 1 (min 50 limit) \<le> 50
        \<and> mset ranked = mset (scores st)
        \<and> sorted_wrt score_before ranked
        \<and> items = map (\<lambda>r. \<lparr>si_id = sc_id r, si_playerName = sc_player_name r,
                               si_character = sc_character r, si_score = sc_score r,
                               si_foundCount = sc_found_count r,
                               si_createdAt = sc_created_at r\<rparr>)
                    (take (nat (max 1 (min 50 limit)))
                       (drop (nat ((max 1 page - 1) * max 1 (min 50 limit))) ranked))
        \<and> int (length items) \<le> max 1 (min 50 limit)
        \<and> sorted_wrt item_before items))
   \<and> (\<not> sqlite_int_ok ((max 1 page - 1) * max 1 (min 50 limit)) \<longrightarrow>
        leaderboard page limit st = Inl (HTTPException 500 MsgIntTooLarge))"
proof (intro conjI impI)
  assume fits: "sqlite_int_ok ((max 1 page - 1) * max 1 (min 50 limit))"
  let ?l = "max 1 (min 50 limit)"
  let ?off = "(max 1 page - 1) * ?l"
  let ?ranked = "order_scores (scores st)"
  let ?items = "map score_item (take (nat ?l) (drop (nat ?off) ?ranked))"
  have l: "0 \<le> ?l" by simp
  have resp: "leaderboard page limit st =
       Inr \<lparr>ok = True, data = Some (ScorePage ?items (int (length (scores st))) (max 1 page) ?l),
            error = None\<rparr>"
    by (rule leaderboard_eq [OF fits])
  have fields: "?items = map (\<lambda>r. \<lparr>si_id = sc_id r, si_playerName = sc_player_name r,
                               si_character = sc_character r, si_score = sc_score r,
                               si_foundCount = sc_found_count r,
                               si_createdAt = sc_created_at r\<rparr>)
                    (take (nat ?l) (drop (nat ?off) ?ranked))"
    by (simp add: score_item_def)
  have "length ?items = length (take (nat ?l) (drop (nat ?off) ?ranked))"
    by (simp only: length_map)
  then have len: "int (length ?items) \<le> ?l"
    using length_page [OF l, of "drop (nat ?off) ?ranked"] by (simp only:)
  have "sorted_wrt score_before (take (nat ?l) (drop (nat ?off) ?ranked))"
    by (rule sorted_page) (rule sorted_order_scores)
  then have srt: "sorted_wrt item_before ?items"
    by (simp add: sorted_wrt_map item_before_score_item)
  have bounds: "1 \<le> max 1 page \<and> 1 \<le> ?l \<and> ?l \<le> 50" by simp
  show "\<exists>items ranked.
        leaderboard page limit st =
          Inr \<lparr>ok = True,
               data = Some (ScorePage items (int (length (scores st))) (max 1 page) ?l),
               error = None\<rparr>
        \<and> 1 \<le> max 1 page \<and> 1 \<le> ?l \<and> ?l \<le> 50
        \<and> mset ranked = mset (scores st)
        \<and> sorted_wrt score_before ranked
        \<and> items = map (\<lambda>r. \<lparr>si_id = sc_id r, si_playerName = sc_player_name r,
                               si_character = sc_character r, si_score = sc_score r,
                               si_foundCount = sc_found_count r,
                               si_createdAt = sc_created_at r\<rparr>)
                    (take (nat ?l) (drop (nat ?off) ranked))
        \<and> int (length items) \<le> ?l
        \<and> sorted_wrt item_before items"
    apply (rule exI [where x = "?items"])
    apply (rule exI [where x = "?ranked"])
    using resp len srt bounds fields mset_order_scores [of "scores st"]
      sorted_order_scores [of "scores st"]
    apply (intro conjI)
            apply (simp_all only:)
    done
next
  assume "\<not> sqlite_int_ok ((max 1 page - 1) * max 1 (min 50 limit))"
  then show "leaderboard page limit st = Inl (HTTPException 500 MsgIntTooLarge)"
    by (rule leaderboard_overflow)
qed

theorem leaderboard_page_witness:
  "sqlite_int_ok ((max 1 2 - 1) * max 1 (min 50 2))
   \<and> leaderboard 2 2
       (empty_state\<lparr>scores := [sample_score 1 50 10, sample_score 2 70 10, sample_score 3 50 12]\<rparr>)
     = Inr \<lparr>ok = True,
            data = Some (ScorePage
              [\<lparr>si_id = 1, si_playerName = ''Ann'', si_character = ''Fox'', si_score = 50,
                si_foundCount = 3, si_createdAt = 10\<rparr>] 3 2 2),
            error = None\<rparr>
   \<and> (\<exists>items ranked.
        leaderboard 2 2
          (empty_state\<lparr>scores := [sample_score 1 50 10, sample_score 2 70 10, sample_score 3 50 12]\<rparr>)
        = Inr \<lparr>ok = True, data = Some (ScorePage items 3 2 2), error = None\<rparr>
        \<and> mset ranked = mset [sample_score 1 50 10, sample_score 2 70 10, sample_score 3 50 12]
        \<and> sorted_wrt score_before ranked
        \<and> items = map (\<lambda>r. \<lparr>si_id = sc_id r, si_playerName = sc_player_name r,
                               si_character = sc_character r, si_score = sc_score r,
                               si_foundCount = sc_found_count r,
                               si_createdAt = sc_created_at r\<rparr>)
                    (take 2 (drop 2 ranked))
        \<and> sorted_wrt item_before items)"
proof -
  have fits: "sqlite_int_ok ((max 1 2 - 1) * max 1 (min 50 2))"
    by (simp add: sqlite_int_ok_def)
  have a: "leaderboard 2 2
       (empty_state\<lparr>scores := [sample_score 1 50 10, sample_score 2 70 10, sample_score 3 50 12]\<rparr>)
     = Inr \<lparr>ok = True,
            data = Some (ScorePage
              [\<lparr>si_id = 1, si_playerName = ''Ann'', si_character = ''Fox'', si_score = 50,
                si_foundCount = 3, si_createdAt = 10\<rparr>] 3 2 2),
            error = None\<rparr>"
    by (simp add: leaderboard_def sql_limit_offset_def order_scores_def sample_score_def
        score_item_def sqlite_int_ok_def)
  from fits leaderboard_page [of 2 2
      "empty_state\<lparr>scores := [sample_score 1 50 10, sample_score 2 70 10, sample_score 3 50 12]\<rparr>"]
  obtain items ranked where
    "leaderboard 2 2
       (empty_state\<lparr>scores := [sample_score 1 50 10, sample_score 2 70 10, sample_score 3 50 12]\<rparr>)
     = Inr \<lparr>ok = True, data = Some (ScorePage items 3 2 2), error = None\<rparr>"
    "mset ranked = mset [sample_score 1 50 10, sample_score 2 70 10, sample_score 3 50 12]"
    "sorted_wrt score_before ranked"
    "items = map (\<lambda>r. \<lparr>si_id = sc_id r, si_playerName = sc_player_name r,
                               si_character = sc_character r, si_score = sc_score r,
                               si_foundCount = sc_found_count r,
                               si_createdAt = sc_created_at r\<rparr>)
                    (take 2 (drop 2 ranked))"
    "sorted_wrt item_before items"
    by auto
  with fits a show ?thesis by blast
qed

lemma list_reports_eq:
  assumes "sqlite_int_ok ((max 1 page - 1) * max 1 (min 50 limit))"
  shows "list_reports page limit st =
     Inr \<lparr>ok = True,
          data = Some (ReportPage
                   (map report_item
                      (take (nat (max 1 (min 50 limit)))
                         (drop (nat ((max 1 page - 1) * max 1 (min 50 limit)))
                            (order_reports (filter (\<lambda>r. rp_deleted r = 0) (reports st))))))
                   (int (length (reports st))) (max 1 page) (max 1 (min 50 limit))),
          error = None\<rparr>"
proof -
  have l: "0 \<le> max 1 (min 50 limit)" by simp
  show ?thesis
    unfolding list_reports_def Let_def sql_limit_offset_page [OF l]
    using assms limit_bindable [of limit] by simp
qed

lemma list_reports_overflow:
  assumes "\<not> sqlite_int_ok ((max 1 page - 1) * max 1 (min 50 limit))"
  shows "list_reports page limit st = Inl (HTTPException 500 MsgIntTooLarge)"
  unfolding list_reports_def Let_def using assms by simp

lemma list_reports_items_not_deleted:
  assumes "it \<in> set (report_items_of (list_reports page limit st))"
  shows "\<exists>r \<in> set (reports st). rp_deleted r = 0 \<and> it = report_item r"
proof (cases "sqlite_int_ok ((max 1 page - 1) * max 1 (min 50 limit))")
  case False
  with assms show ?thesis by (simp add: list_reports_overflow report_items_of_def)
next
  case True
  let ?rows = "order_reports (filter (\<lambda>r. rp_deleted r = 0) (reports st))"
  from assms obtain r where r: "r \<in> set (take (nat (max 1 (min 50 limit)))
      (drop (nat ((max 1 page - 1) * max 1 (min 50 limit))) ?rows))" and it: "it = report_item r"
    by (auto simp: list_reports_eq [OF True] report_items_of_def)
  from r have "r \<in> set ?rows"
    by (meson in_set_takeD in_set_dropD)
  then have "r \<in># mset ?rows" by simp
  then have "r \<in># mset (filter (\<lambda>r. rp_deleted r = 0) (reports st))"
    by (simp only: mset_order_reports)
  then have "r \<in> set (reports st) \<and> rp_deleted r = 0" by simp
  with it show ?thesis by blast
qed

lemma list_reports_order:
  "sorted_wrt (\<lambda>a b. ri_createdAt a \<ge> ri_createdAt b)
     (report_items_of (list_reports page limit st))"
proof (cases "sqlite_int_ok ((max 1 page - 1) * max 1 (min 50 limit))")
  case False
  then show ?thesis by (simp add: list_reports_overflow report_items_of_def)
next
  case True
  have "sorted_wrt (\<lambda>a b. rp_created_at a \<ge> rp_created_at b)
          (take (nat (max 1 (min 50 limit)))
             (drop (nat ((max 1 page - 1) * max 1 (min 50 limit)))
                (order_reports (filter (\<lambda>r. rp_deleted r = 0) (reports st)))))"
    by (rule sorted_page) (rule sorted_order_reports)
  then show ?thesis
    by (simp add: list_reports_eq [OF True] report_items_of_def sorted_wrt_map report_item_def)
qed

lemma list_reports_total:
  "sqlite_int_ok ((max 1 page - 1) * max 1 (min 50 limit)) \<Longrightarrow>
   report_total_of (list_reports page limit st) = Some (int (length (reports st)))"
  by (simp add: list_reports_eq report_total_of_def)

text \<open>
  C2. The listing of reports shows rows with \<open>deleted = 0\<close> only, but the total it returns
  counts every row of the table. In a table whose single report is soft-deleted the
  listing is empty, the number of non-deleted reports is 0, and the total returned is 1.
\<close>

theorem list_reports_total_counts_deleted:
  "list_reports 1 20 (empty_state\<lparr>reports := [sample_report 1 5 1]\<rparr>)
     = Inr \<lparr>ok = True, data = Some (ReportPage [] 1 1 20), error = None\<rparr>
   \<and> length (filter (\<lambda>r. rp_deleted r = 0)
        (reports (empty_state\<lparr>reports := [sample_report 1 5 1]\<rparr>))) = 0
   \<and> report_total_of (list_reports 1 20 (empty_state\<lparr>reports := [sample_report 1 5 1]\<rparr>))
     = Some 1"
  by (simp add: list_reports_def sql_limit_offset_def sqlite_int_ok_def report_total_of_def
      sample_report_def order_reports_def)

section \<open>Properties of the submissions\<close>

lemma int_or_cases:
  "int_or x d = (case x of None \<Rightarrow> d | Some v \<Rightarrow> if v = 0 then d else v)"
  by (simp add: int_or_def)

lemma int_or_Some_0 [simp]: "int_or (Some v) 0 = v"
  by (simp add: int_or_def)

lemma submit_score_banned:
  "contains_mgc (str_lower e) (Some (ss_playerName p)) mgc
     \<or> contains_mgc (str_lower e) (Some (ss_character p)) mgc
   \<Longrightarrow> submit_score e mgc p st = (Inr \<lparr>ok = False, data = None, error = Some MsgScoreBanned\<rparr>, st)"
  by (simp add: submit_score_def)

lemma submit_score_pass:
  "\<not> contains_mgc (str_lower e) (Some (ss_playerName p)) mgc
   \<Longrightarrow> \<not> contains_mgc (str_lower e) (Some (ss_character p)) mgc
   \<Longrightarrow> sqlite_int_ok (ss_score p) \<Longrightarrow> sqlite_int_ok (ss_foundCount p)
   \<Longrightarrow> sqlite_int_ok (int_or (ss_ts p) (time_s e))
   \<Longrightarrow> submit_score e mgc p st =
     (Inr \<lparr>ok = True, data = Some (IdData (next_rowid (map sc_id (scores st)))), error = None\<rparr>,
      st\<lparr>scores := scores st @
           [\<lparr>sc_id = next_rowid (map sc_id (scores st)),
             sc_player_name = ss_playerName p, sc_character = ss_character p,
             sc_score = ss_score p, sc_found_count = ss_foundCount p,
             sc_created_at = int_or (ss_ts p) (time_s e)\<rparr>]\<rparr>)"
  by (simp add: submit_score_def Let_def)

lemma submit_score_overflow:
  "\<not> contains_mgc (str_lower e) (Some (ss_playerName p)) mgc
   \<Longrightarrow> \<not> contains_mgc (str_lower e) (Some (ss_character p)) mgc
   \<Longrightarrow> \<not> (sqlite_int_ok (ss_score p) \<and> sqlite_int_ok (ss_foundCount p)
          \<and> sqlite_int_ok (int_or (ss_ts p) (time_s e)))
   \<Longrightarrow> submit_score e mgc p st = (Inl (HTTPException 500 MsgIntTooLarge), st)"
  by (simp add: submit_score_def Let_def)

lemma submit_score_accepted_iff:
  "accepted (fst (submit_score e mgc p st)) \<longleftrightarrow>
     \<not> contains_mgc (str_lower e) (Some (ss_playerName p)) mgc
     \<and> \<not> contains_mgc (str_lower e) (Some (ss_character p)) mgc
     \<and> sqlite_int_ok (ss_score p) \<and> sqlite_int_ok (ss_foundCount p)
     \<and> sqlite_int_ok (int_or (ss_ts p) (time_s e))"
proof (cases "contains_mgc (str_lower e) (Some (ss_playerName p)) mgc
     \<or> contains_mgc (str_lower e) (Some (ss_character p)) mgc")
  case True
  then show ?thesis by (auto simp: submit_score_banned accepted_def)
next
  case False
  show ?thesis
  proof (cases "sqlite_int_ok (ss_score p) \<and> sqlite_int_ok (ss_foundCount p)
          \<and> sqlite_int_ok (int_or (ss_ts p) (time_s e))")
    case True
    with False show ?thesis by (simp add: submit_score_pass accepted_def)
  next
    case no: False
    from False have "\<not> contains_mgc (str_lower e) (Some (ss_playerName p)) mgc"
      and "\<not> contains_mgc (str_lower e) (Some (ss_character p)) mgc" by simp_all
    from submit_score_overflow [OF this no] no show ?thesis by (simp add: accepted_def)
  qed
qed

lemma submit_report_banned:
  "headers request ''X-Report-Pwd'' = Some REPORT_UPLOAD_PWD
   \<Longrightarrow> contains_mgc (str_lower e) (Some (rs_text p)) mgc
   \<Longrightarrow> submit_report e mgc p request st =
        (Inr \<lparr>ok = False, data = None, error = Some MsgReportBanned\<rparr>, st)"
  using require_upload_pwd_iff [of request] by (simp add: submit_report_def)

lemma submit_report_pass:
  assumes "headers request ''X-Report-Pwd'' = Some REPORT_UPLOAD_PWD"
      and "\<not> contains_mgc (str_lower e) (Some (rs_text p)) mgc"
      and "(case str_or_None (rs_imgData p) of
              None \<Rightarrow> (None, uploads st)
            | Some d \<Rightarrow> save_data_url_to_file e d (uploads st)) = (img_path, dir)"
      and "sqlite_opt_ok (rs_x p)" and "sqlite_opt_ok (rs_y p)"
      and "sqlite_int_ok (int_or (rs_ts p) (time_s e))"
  shows "submit_report e mgc p request st =
     (Inr \<lparr>ok = True, data = Some (IdData (next_rowid (map rp_id (reports st)))), error = None\<rparr>,
      st\<lparr>reports := reports st @
           [\<lparr>rp_id = next_rowid (map rp_id (reports st)),
             rp_text = rs_text p, rp_npc = str_or_None (rs_npc p),
             rp_x = rs_x p, rp_y = rs_y p,
             rp_created_at = int_or (rs_ts p) (time_s e),
             rp_audited = 0, rp_deleted = 0,
             rp_img_data = str_or_None img_path\<rparr>],
         uploads := dir\<rparr>)"
  using require_upload_pwd_iff [of request] assms
  by (simp add: submit_report_def Let_def)

lemma submit_report_overflow:
  assumes "headers request ''X-Report-Pwd'' = Some REPORT_UPLOAD_PWD"
      and "\<not> contains_mgc (str_lower e) (Some (rs_text p)) mgc"
      and "(case str_or_None (rs_imgData p) of
              None \<Rightarrow> (None, uploads st)
            | Some d \<Rightarrow> save_data_url_to_file e d (uploads st)) = (img_path, dir)"
      and "\<not> (sqlite_opt_ok (rs_x p) \<and> sqlite_opt_ok (rs_y p)
              \<and> sqlite_int_ok (int_or (rs_ts p) (time_s e)))"
  shows "submit_report e mgc p request st =
     (Inl (HTTPException 500 MsgIntTooLarge), st\<lparr>uploads := dir\<rparr>)"
  using require_upload_pwd_iff [of request] assms
  by (simp add: submit_report_def Let_def)

lemma image_step:
  "\<exists>img_path dir.
     (case str_or_None (rs_imgData p) of
        None \<Rightarrow> (None, uploads st)
      | Some d \<Rightarrow> save_data_url_to_file e d (uploads st)) = (img_path, dir)"
  by (cases "case str_or_None (rs_imgData p) of
        None \<Rightarrow> (None, uploads st)
      | Some d \<Rightarrow> save_data_url_to_file e d (uploads st)") blast

lemma submit_report_accepted_iff:
  "accepted (fst (submit_report e mgc p request st)) \<longleftrightarrow>
     headers request ''X-Report-Pwd'' = Some REPORT_UPLOAD_PWD
     \<and> \<not> contains_mgc (str_lower e) (Some (rs_text p)) mgc
     \<and> sqlite_opt_ok (rs_x p) \<and> sqlite_opt_ok (rs_y p)
     \<and> sqlite_int_ok (int_or (rs_ts p) (time_s e))"
proof (cases "headers request ''X-Report-Pwd'' = Some REPORT_UPLOAD_PWD")
  case False
  then show ?thesis
    using require_upload_pwd_reject [of request] by (simp add: submit_report_def accepted_def)
next
  case auth: True
  show ?thesis
  proof (cases "contains_mgc (str_lower e) (Some (rs_text p)) mgc")
    case True
    with auth show ?thesis by (simp add: submit_report_banned accepted_def)
  next
    case pass: False
    obtain img_path dir where img:
      "(case str_or_None (rs_imgData p) of
          None \<Rightarrow> (None, uploads st)
        | Some d \<Rightarrow> save_data_url_to_file e d (uploads st)) = (img_path, dir)"
      using image_step by blast
    show ?thesis
    proof (cases "sqlite_opt_ok (rs_x p) \<and> sqlite_opt_ok (rs_y p)
              \<and> sqlite_int_ok (int_or (rs_ts p) (time_s e))")
      case True
      then have "sqlite_opt_ok (rs_x p)" "sqlite_opt_ok (rs_y p)"
        "sqlite_int_ok (int_or (rs_ts p) (time_s e))" by simp_all
      from submit_report_pass [OF auth pass img this] auth pass True
      show ?thesis by (simp add: accepted_def)
    next
      case False
      from submit_report_overflow [OF auth pass img False] False
      show ?thesis by (simp add: accepted_def)
    qed
  qed
qed

text \<open>
  C9, as the claim states it, fails: a score and a report submitted with \<open>ts = 0\<close> are
  accepted, and the row stored carries the server's time, not the client's 0.
\<close>

theorem created_at_zero_ts_counterexample:
  "time_s sample_env = 1700000000
   \<and> accepted (fst (submit_score sample_env []
      \<lparr>ss_playerName = ''Ann'', ss_character = ''Fox'', ss_score = 100, ss_foundCount = 3,
       ss_ts = Some 0\<rparr> empty_state))
   \<and> map sc_created_at (scores (snd (submit_score sample_env []
      \<lparr>ss_playerName = ''Ann'', ss_character = ''Fox'', ss_score = 100, ss_foundCount = 3,
       ss_ts = Some 0\<rparr> empty_state))) = [1700000000]
   \<and> accepted (fst (submit_report sample_env [] (sample_submit (Some 0) None)
        (with_pwd ''123'') empty_state))
   \<and> map rp_created_at (reports (snd (submit_report sample_env [] (sample_submit (Some 0) None)
        (with_pwd ''123'') empty_state))) = [1700000000]"
  by (simp add: submit_score_def submit_report_def require_upload_pwd_def headers_get_def
      REPORT_UPLOAD_PWD_def with_pwd_def contains_mgc_def accepted_def int_or_def
      str_or_None_def sample_env_def sample_submit_def empty_state_def Let_def
      sqlite_int_ok_def sqlite_opt_ok_def)

text \<open>
  C9, amended. An accepted score or report submission appends one row, and the creation
  time stored in it is the client's \<open>ts\<close> when the client supplied one other than 0, and
  the server's current time when \<open>ts\<close> is absent or 0.
\<close>

theorem created_at_stored:
  "(accepted (fst (submit_score e mgc ps st)) \<longrightarrow>
      (\<exists>row. scores (snd (submit_score e mgc ps st)) = scores st @ [row]
         \<and> sc_created_at row =
             (case ss_ts ps of None \<Rightarrow> time_s e | Some t \<Rightarrow> if t = 0 then time_s e else t)))
   \<and> (accepted (fst (submit_report e mgc pr request st)) \<longrightarrow>
      (\<exists>row. reports (snd (submit_report e mgc pr request st)) = reports st @ [row]
         \<and> rp_created_at row =
             (case rs_ts pr of None \<Rightarrow> time_s e | Some t \<Rightarrow> if t = 0 then time_s e else t)))"
proof (intro conjI impI)
  assume "accepted (fst (submit_score e mgc ps st))"
  then have "\<not> contains_mgc (str_lower e) (Some (ss_playerName ps)) mgc"
    and "\<not> contains_mgc (str_lower e) (Some (ss_character ps)) mgc"
    and "sqlite_int_ok (ss_score ps)" and "sqlite_int_ok (ss_foundCount ps)"
    and "sqlite_int_ok (int_or (ss_ts ps) (time_s e))"
    by (simp_all add: submit_score_accepted_iff)
  then show "\<exists>row. scores (snd (submit_score e mgc ps st)) = scores st @ [row]
         \<and> sc_created_at row =
             (case ss_ts ps of None \<Rightarrow> time_s e | Some t \<Rightarrow> if t = 0 then time_s e else t)"
    by (simp add: submit_score_pass int_or_cases)
next
  assume "accepted (fst (submit_report e mgc pr request st))"
  then have auth: "headers request ''X-Report-Pwd'' = Some REPORT_UPLOAD_PWD"
    and pass: "\<not> contains_mgc (str_lower e) (Some (rs_text pr)) mgc"
    and fits: "sqlite_opt_ok (rs_x pr)" "sqlite_opt_ok (rs_y pr)"
      "sqlite_int_ok (int_or (rs_ts pr) (time_s e))"
    by (simp_all add: submit_report_accepted_iff)
  obtain img_path dir where
    "(case str_or_None (rs_imgData pr) of
        None \<Rightarrow> (None, uploads st)
      | Some d \<Rightarrow> save_data_url_to_file e d (uploads st)) = (img_path, dir)"
    using image_step by blast
  from submit_report_pass [OF auth pass this fits]
  show "\<exists>row. reports (snd (submit_report e mgc pr request st)) = reports st @ [row]
         \<and> rp_created_at row =
             (case rs_ts pr of None \<Rightarrow> time_s e | Some t \<Rightarrow> if t = 0 then time_s e else t)"
    by (simp add: int_or_cases)
qed

theorem created_at_stored_witness:
  "accepted (fst (submit_score sample_env []
      \<lparr>ss_playerName = ''Ann'', ss_character = ''Fox'', ss_score = 100, ss_foundCount = 3,
       ss_ts = Some 1650000000\<rparr> empty_state))
   \<and> (\<exists>row. scores (snd (submit_score sample_env []
         \<lparr>ss_playerName = ''Ann'', ss_character = ''Fox'', ss_score = 100, ss_foundCount = 3,
          ss_ts = Some 1650000000\<rparr> empty_state)) = [row]
        \<and> sc_created_at row = 1650000000)
   \<and> accepted (fst (submit_report sample_env [] (sample_submit None None)
        (with_pwd ''123'') empty_state))
   \<and> (\<exists>row. reports (snd (submit_report sample_env [] (sample_submit None None)
         (with_pwd ''123'') empty_state)) = [row]
        \<and> rp_created_at row = 1700000000)"
proof -
  have a: "accepted (fst (submit_score sample_env []
      \<lparr>ss_playerName = ''Ann'', ss_character = ''Fox'', ss_score = 100, ss_foundCount = 3,
       ss_ts = Some 1650000000\<rparr> empty_state))"
    by (simp add: submit_score_accepted_iff contains_mgc_def sqlite_int_ok_def int_or_def)
  have b: "accepted (fst (submit_report sample_env [] (sample_submit None None)
        (with_pwd ''123'') empty_state))"
    by (simp add: submit_report_accepted_iff contains_mgc_def REPORT_UPLOAD_PWD_def
        sample_submit_def sample_env_def sqlite_int_ok_def sqlite_opt_ok_def int_or_def)
  show ?thesis
    using a b
      created_at_stored [of sample_env "[]"
        "\<lparr>ss_playerName = ''Ann'', ss_character = ''Fox'', ss_score = 100, ss_foundCount = 3,
          ss_ts = Some 1650000000\<rparr>" empty_state "sample_submit None None" "with_pwd ''123''"]
    by (simp add: empty_state_def sample_env_def sample_submit_def)
qed

lemma sample_text_banned:
  "contains_mgc (str_lower sample_env) (Some (rs_text (sample_submit None None))) [''GATE'']"
  by (simp add: contains_mgc_def sample_submit_def sample_env_def ascii_lower_def lower_char_def)

text \<open>
  C4, as the claim states it, fails: a report whose text holds a banned word and whose
  request carries no upload password is answered with the transport-level error 403, not
  with \<open>ok: false\<close>.
\<close>

theorem banned_report_unauthorized_counterexample:
  "(\<exists>w \<in> set [''GATE'']. ci_substring (str_lower sample_env) w (rs_text (sample_submit None None)))
   \<and> contains_mgc (str_lower sample_env) (Some (rs_text (sample_submit None None))) [''GATE'']
   \<and> fst (submit_report sample_env [''GATE''] (sample_submit None None) no_pwd empty_state)
       = Inl (HTTPException 403 MsgUploadPwd)"
proof -
  have cw: "\<forall>s. str_lower sample_env s = map lower_char s"
    by (simp add: sample_env_def ascii_lower_def)
  have "\<exists>w \<in> set [''GATE'']. w \<noteq> []
          \<and> lowered_substring (str_lower sample_env) w (rs_text (sample_submit None None))"
    using sample_text_banned by (simp add: contains_mgc_Some_iff)
  then have "\<exists>w \<in> set [''GATE''].
      ci_substring (str_lower sample_env) w (rs_text (sample_submit None None))"
    by (simp add: lowered_substring_charwise [OF cw])
  moreover have "fst (submit_report sample_env [''GATE''] (sample_submit None None) no_pwd
      empty_state) = Inl (HTTPException 403 MsgUploadPwd)"
    by (simp add: submit_report_def require_upload_pwd_def headers_get_def REPORT_UPLOAD_PWD_def)
  ultimately show ?thesis using sample_text_banned by blast
qed

text \<open>
  C4, amended. Take a report submission whose text is not empty (the schema admits no
  other) and, once lower-cased, holds the lower-case form of a non-empty word of the
  banned-word list. It leaves the state as it was: no row is inserted and no file is
  written. When the request carries the upload password the answer is the business
  response \<open>ok: false\<close>; otherwise it is the authorization error 403.
\<close>

theorem banned_report_not_persisted:
  assumes "rs_text p \<noteq> []"
      and "\<exists>w \<in> set mgc. w \<noteq> [] \<and> lowered_substring (str_lower e) w (rs_text p)"
  shows "snd (submit_report e mgc p request st) = st
     \<and> (headers request ''X-Report-Pwd'' = Some REPORT_UPLOAD_PWD \<longrightarrow>
          fst (submit_report e mgc p request st)
            = Inr \<lparr>ok = False, data = None, error = Some MsgReportBanned\<rparr>)
     \<and> (headers request ''X-Report-Pwd'' \<noteq> Some REPORT_UPLOAD_PWD \<longrightarrow>
          fst (submit_report e mgc p request st) = Inl (HTTPException 403 MsgUploadPwd))"
proof -
  from assms have banned: "contains_mgc (str_lower e) (Some (rs_text p)) mgc"
    by (simp add: contains_mgc_Some_iff)
  show ?thesis
  proof (cases "headers request ''X-Report-Pwd'' = Some REPORT_UPLOAD_PWD")
    case True
    then show ?thesis using banned by (simp add: submit_report_banned)
  next
    case False
    then show ?thesis
      using require_upload_pwd_reject [of request] by (simp add: submit_report_def)
  qed
qed

theorem banned_report_not_persisted_witness:
  "rs_text (sample_submit None None) \<noteq> []
   \<and> (\<exists>w \<in> set [''GATE'']. w \<noteq> []
         \<and> lowered_substring (str_lower sample_env) w (rs_text (sample_submit None None)))
   \<and> submit_report sample_env [''GATE''] (sample_submit None None) (with_pwd ''123'')
        (empty_state\<lparr>reports := [sample_report 1 5 0]\<rparr>)
      = (Inr \<lparr>ok = False, data = None, error = Some MsgReportBanned\<rparr>,
         empty_state\<lparr>reports := [sample_report 1 5 0]\<rparr>)"
proof -
  have n: "rs_text (sample_submit None None) \<noteq> []"
    by (simp add: sample_submit_def)
  have h: "\<exists>w \<in> set [''GATE'']. w \<noteq> []
         \<and> lowered_substring (str_lower sample_env) w (rs_text (sample_submit None None))"
    using sample_text_banned by (simp add: contains_mgc_Some_iff)
  have a: "headers (with_pwd ''123'') ''X-Report-Pwd'' = Some REPORT_UPLOAD_PWD"
    by (simp add: REPORT_UPLOAD_PWD_def)
  show ?thesis
    using n h a banned_report_not_persisted [OF n h, of "with_pwd ''123''"
        "empty_state\<lparr>reports := [sample_report 1 5 0]\<rparr>"]
    by (simp add: prod_eq_iff)
qed

section \<open>Properties of the image upload\<close>


lemma match_data_url_intro:
  assumes "image_data_url d subtype payload"
  shows "match_data_url d = Some (''image/'' @ subtype, payload)"
proof -
  from assms have sub: "subtype \<noteq> []" "\<forall>c \<in> set subtype. c \<noteq> CHR '';''"
    and pay: "payload \<noteq> []" "\<forall>c \<in> set payload. c \<noteq> CHR 0x0A"
    and d: "d = ''data:image/'' @ subtype @ '';base64,'' @ payload
        \<or> d = ''data:image/'' @ subtype @ '';base64,'' @ payload @ [CHR 0x0A]"
    by (auto simp: image_data_url_def)
  have tw: "takeWhile (\<lambda>c. c \<noteq> CHR 0x0A) payload = payload"
    and dw: "dropWhile (\<lambda>c. c \<noteq> CHR 0x0A) payload = []"
    using pay by (simp_all add: takeWhile_eq_all_conv)
  from d show ?thesis
  proof
    assume "d = ''data:image/'' @ subtype @ '';base64,'' @ payload"
    then show ?thesis using sub pay
      by (simp add: match_data_url_def Let_def takeWhile_tail dropWhile_append3 tw dw)
  next
    assume "d = ''data:image/'' @ subtype @ '';base64,'' @ payload @ [CHR 0x0A]"
    then show ?thesis using sub pay
      by (simp add: match_data_url_def Let_def takeWhile_tail dropWhile_append3 tw dw)
  qed
qed

lemma match_data_url_elim:
  assumes "match_data_url d = Some (g1, b64)"
  shows "\<exists>subtype. g1 = ''image/'' @ subtype \<and> image_data_url d subtype b64"
proof -
  let ?rest = "drop 11 d"
  let ?sub = "takeWhile (\<lambda>c. c \<noteq> CHR '';'') ?rest"
  let ?after = "dropWhile (\<lambda>c. c \<noteq> CHR '';'') ?rest"
  let ?body = "drop 8 ?after"
  let ?line = "takeWhile (\<lambda>c. c \<noteq> CHR 0x0A) ?body"
  let ?tail = "dropWhile (\<lambda>c. c \<noteq> CHR 0x0A) ?body"
  from assms have pre: "startswith d ''data:image/''"
    and sub: "?sub \<noteq> []" and aft: "startswith ?after '';base64,''"
    and line: "?line \<noteq> []" and tail: "?tail = [] \<or> ?tail = [CHR 0x0A]"
    and g1: "g1 = ''image/'' @ ?sub" and b64: "b64 = ?line"
    by (auto simp: match_data_url_def Let_def split: if_splits)
  from pre obtain r where "d = ''data:image/'' @ r" by (auto simp: startswith_iff)
  then have d: "d = ''data:image/'' @ ?rest" by simp
  from aft obtain b where "?after = '';base64,'' @ b" by (auto simp: startswith_iff)
  then have after: "?after = '';base64,'' @ ?body" by simp
  have "?rest = ?sub @ ?after" by simp
  with after have rest: "?rest = ?sub @ '';base64,'' @ ?body" by simp
  have body: "?body = ?line @ ?tail" by simp
  have nosemi: "CHR '';'' \<notin> set ?sub" using set_takeWhileD by fastforce
  have nonl: "CHR 0x0A \<notin> set ?line" using set_takeWhileD by fastforce
  from tail have "d = ''data:image/'' @ ?sub @ '';base64,'' @ ?line
        \<or> d = ''data:image/'' @ ?sub @ '';base64,'' @ ?line @ [CHR 0x0A]"
  proof
    assume "?tail = []"
    with body have "?body = ?line" by simp
    with rest d show ?thesis by metis
  next
    assume "?tail = [CHR 0x0A]"
    with body have "?body = ?line @ [CHR 0x0A]" by simp
    with rest d show ?thesis by metis
  qed
  with sub line nosemi nonl have "image_data_url d ?sub ?line"
    unfolding image_data_url_def by blast
  with g1 b64 show ?thesis by blast
qed

lemma image_data_url_not_Nil: "image_data_url d subtype payload \<Longrightarrow> d \<noteq> []"
  by (auto simp: image_data_url_def)

lemma save_data_url_saved:
  assumes "image_data_url d subtype payload" and "b64decode e payload = Some raw"
  shows "save_data_url_to_file e d dir =
     (Some (''/uploads/'' @ upload_name e (ext_of (str_lower e (''image/'' @ subtype)))),
      dir(upload_name e (ext_of (str_lower e (''image/'' @ subtype))) \<mapsto> raw))"
  using assms match_data_url_intro [OF assms(1)] image_data_url_not_Nil [OF assms(1)]
  by (simp add: save_data_url_to_file_def upload_name_def Let_def)

lemma save_data_url_not_saved:
  assumes "\<nexists>subtype payload raw. image_data_url d subtype payload \<and> b64decode e payload = Some raw"
  shows "save_data_url_to_file e d dir = (None, dir)"
proof (cases "match_data_url d")
  case None
  then show ?thesis by (simp add: save_data_url_to_file_def)
next
  case (Some m)
  obtain g1 b64 where m: "m = (g1, b64)" by (cases m)
  with Some obtain subtype where "image_data_url d subtype b64"
    using match_data_url_elim by blast
  with assms have "b64decode e b64 = None" by (cases "b64decode e b64") auto
  with Some m show ?thesis by (simp add: save_data_url_to_file_def Let_def)
qed

lemma ext_of_table:
  "ext_of mime =
     (if mime = ''image/png'' then ''png''
      else if mime = ''image/webp'' then ''webp''
      else if mime = ''image/gif'' then ''gif''
      else if mime = ''image/bmp'' then ''bmp''
      else ''jpg'')"
  by (simp add: ext_of_def ext_map_def)

text \<open>
  C3, as the claim states it, fails: a data URL of the stated form whose MIME type is not
  an image type, here \<open>data:text/plain;base64,aGk=\<close> with a payload that decodes, is not
  given the extension \<open>jpg\<close> and persisted; the report is stored without an image and no
  file is written.
\<close>

theorem non_image_data_url_counterexample:
  "''data:text/plain;base64,aGk='' = ''data:'' @ ''text/plain'' @ '';base64,'' @ ''aGk=''
   \<and> b64decode sample_env ''aGk='' = Some ''hi''
   \<and> submit_report sample_env [] (sample_submit None (Some ''data:text/plain;base64,aGk=''))
        (with_pwd ''123'') empty_state
      = (Inr \<lparr>ok = True, data = Some (IdData 1), error = None\<rparr>,
         empty_state\<lparr>reports := [sample_report 1 1700000000 0]\<rparr>)"
  by (simp add: submit_report_def require_upload_pwd_def headers_get_def REPORT_UPLOAD_PWD_def
      contains_mgc_def int_or_def str_or_None_def next_rowid_def save_data_url_to_file_def
      match_data_url_def sample_env_def sample_submit_def sample_report_def empty_state_def
      Let_def sqlite_int_ok_def sqlite_opt_ok_def)

text \<open>
  C3, amended. Take a report submission that carries the upload password, passes the
  banned-word filter, has \<open>x\<close>, \<open>y\<close> and a creation time within the signed 64-bit range
  of an SQLite \<open>INTEGER\<close>, and has an \<open>imgData\<close>. If \<open>imgData\<close> is an image data URL
  \<open>data:image/<subtype>;base64,<payload>\<close> whose payload the decoder accepts, the decoded
  bytes are written to the uploads directory under the generated name, whose extension
  comes from the lower-cased MIME type, and the inserted row stores the path
  \<open>/uploads/<name>\<close>. In every other case (another MIME type, another shape, an empty
  string, a payload the decoder refuses) the submission is accepted all the same, no file
  is written and the row stores no image. The extension is \<open>png\<close>, \<open>webp\<close>, \<open>gif\<close> or
  \<open>bmp\<close> for these four image types and \<open>jpg\<close> for every other one.
\<close>

theorem report_image_saved:
  assumes "headers request ''X-Report-Pwd'' = Some REPORT_UPLOAD_PWD"
      and "\<not> contains_mgc (str_lower e) (Some (rs_text p)) mgc"
      and "rs_imgData p = Some d"
      and "sqlite_opt_ok (rs_x p)" and "sqlite_opt_ok (rs_y p)"
      and "sqlite_int_ok (case rs_ts p of None \<Rightarrow> time_s e
                          | Some t \<Rightarrow> if t = 0 then time_s e else t)"
  shows "(image_data_url d subtype payload \<and> b64decode e payload = Some raw \<longrightarrow>
           (\<exists>row. submit_report e mgc p request st =
              (Inr \<lparr>ok = True, data = Some (IdData (rp_id row)), error = None\<rparr>,
               st\<lparr>reports := reports st @ [row],
                  uploads := (uploads st)
                     (upload_name e (ext_of (str_lower e (''image/'' @ subtype))) \<mapsto> raw)\<rparr>)
              \<and> rp_img_data row =
                  Some (''/uploads/'' @ upload_name e (ext_of (str_lower e (''image/'' @ subtype))))))
     \<and> ((\<nexists>subtype payload raw. image_data_url d subtype payload \<and> b64decode e payload = Some raw) \<longrightarrow>
           (\<exists>row. submit_report e mgc p request st =
              (Inr \<lparr>ok = True, data = Some (IdData (rp_id row)), error = None\<rparr>,
               st\<lparr>reports := reports st @ [row]\<rparr>)
              \<and> rp_img_data row = None))
     \<and> ext_of ''image/png'' = ''png'' \<and> ext_of ''image/webp'' = ''webp''
     \<and> ext_of ''image/gif'' = ''gif'' \<and> ext_of ''image/bmp'' = ''bmp''
     \<and> (mime \<notin> {''image/png'', ''image/webp'', ''image/gif'', ''image/bmp''} \<longrightarrow>
          ext_of mime = ''jpg'')"
proof -
  have fits: "sqlite_int_ok (int_or (rs_ts p) (time_s e))"
    using assms(6) by (simp add: int_or_cases)
  note pass = submit_report_pass [OF assms(1,2) _ assms(4,5) fits]
  show ?thesis
  proof (intro conjI impI)
  assume a: "image_data_url d subtype payload \<and> b64decode e payload = Some raw"
  let ?row = "\<lambda>img. \<lparr>rp_id = next_rowid (map rp_id (reports st)),
             rp_text = rs_text p, rp_npc = str_or_None (rs_npc p),
             rp_x = rs_x p, rp_y = rs_y p,
             rp_created_at = int_or (rs_ts p) (time_s e),
             rp_audited = 0, rp_deleted = 0,
             rp_img_data = img\<rparr>"
  let ?name = "upload_name e (ext_of (str_lower e (''image/'' @ subtype)))"
  from a have i: "image_data_url d subtype payload" and b: "b64decode e payload = Some raw"
    by simp_all
  from i have "d \<noteq> []" by (rule image_data_url_not_Nil)
  with assms(3) have s: "str_or_None (rs_imgData p) = Some d" by (simp add: str_or_None_def)
  have "(case str_or_None (rs_imgData p) of
                None \<Rightarrow> (None, uploads st)
              | Some d \<Rightarrow> save_data_url_to_file e d (uploads st))
             = (Some (''/uploads/'' @ ?name), (uploads st)(?name \<mapsto> raw))"
    by (simp only: s option.case save_data_url_saved [OF i b])
  from pass [OF this]
  have "submit_report e mgc p request st =
              (Inr \<lparr>ok = True, data = Some (IdData (rp_id (?row (Some (''/uploads/'' @ ?name))))),
                    error = None\<rparr>,
               st\<lparr>reports := reports st @ [?row (Some (''/uploads/'' @ ?name))],
                  uploads := (uploads st)(?name \<mapsto> raw)\<rparr>)
        \<and> rp_img_data (?row (Some (''/uploads/'' @ ?name))) = Some (''/uploads/'' @ ?name)"
    by (simp add: str_or_None_def)
  then show "\<exists>row. submit_report e mgc p request st =
              (Inr \<lparr>ok = True, data = Some (IdData (rp_id row)), error = None\<rparr>,
               st\<lparr>reports := reports st @ [row], uploads := (uploads st)(?name \<mapsto> raw)\<rparr>)
              \<and> rp_img_data row = Some (''/uploads/'' @ ?name)"
    by (rule exI [where x = "?row (Some (''/uploads/'' @ ?name))"])
next
  assume n: "\<nexists>subtype payload raw. image_data_url d subtype payload \<and> b64decode e payload = Some raw"
  let ?row = "\<lambda>img. \<lparr>rp_id = next_rowid (map rp_id (reports st)),
             rp_text = rs_text p, rp_npc = str_or_None (rs_npc p),
             rp_x = rs_x p, rp_y = rs_y p,
             rp_created_at = int_or (rs_ts p) (time_s e),
             rp_audited = 0, rp_deleted = 0,
             rp_img_data = img\<rparr>"
  have "(case str_or_None (rs_imgData p) of
           None \<Rightarrow> (None, uploads st)
         | Some d \<Rightarrow> save_data_url_to_file e d (uploads st))
        = (None, uploads st)"
    using assms(3) save_data_url_not_saved [OF n]
    by (simp add: str_or_None_def)
  from pass [OF this]
  have "submit_report e mgc p request st =
              (Inr \<lparr>ok = True, data = Some (IdData (rp_id (?row None))), error = None\<rparr>,
               st\<lparr>reports := reports st @ [?row None]\<rparr>)
        \<and> rp_img_data (?row None) = None"
    by (simp add: str_or_None_def)
  then show "\<exists>row. submit_report e mgc p request st =
              (Inr \<lparr>ok = True, data = Some (IdData (rp_id row)), error = None\<rparr>,
               st\<lparr>reports := reports st @ [row]\<rparr>)
              \<and> rp_img_data row = None"
    by (rule exI [where x = "?row None"])
next
  assume "mime \<notin> {''image/png'', ''image/webp'', ''image/gif'', ''image/bmp''}"
  then show "ext_of mime = ''jpg''" by (simp add: ext_of_table)
  qed (simp_all add: ext_of_table)
qed

theorem report_image_saved_witness:
  "headers (with_pwd ''123'') ''X-Report-Pwd'' = Some REPORT_UPLOAD_PWD
   \<and> \<not> contains_mgc (str_lower sample_env)
         (Some (rs_text (sample_submit None (Some ''data:image/PNG;base64,aGk='')))) [''bad'']
   \<and> sqlite_int_ok (time_s sample_env)
   \<and> image_data_url ''data:image/PNG;base64,aGk='' ''PNG'' ''aGk=''
   \<and> b64decode sample_env ''aGk='' = Some ''hi''
   \<and> upload_name sample_env (ext_of (str_lower sample_env ''image/PNG''))
       = ''1700000000123_01234567.png''
   \<and> (\<exists>row. submit_report sample_env [''bad'']
          (sample_submit None (Some ''data:image/PNG;base64,aGk='')) (with_pwd ''123'') empty_state
        = (Inr \<lparr>ok = True, data = Some (IdData (rp_id row)), error = None\<rparr>,
           empty_state\<lparr>reports := [row],
              uploads := [''1700000000123_01234567.png'' \<mapsto> ''hi'']\<rparr>)
        \<and> rp_img_data row = Some ''/uploads/1700000000123_01234567.png'')"
proof -
  have a: "headers (with_pwd ''123'') ''X-Report-Pwd'' = Some REPORT_UPLOAD_PWD"
    by (simp add: REPORT_UPLOAD_PWD_def)
  have b: "\<not> contains_mgc (str_lower sample_env)
         (Some (rs_text (sample_submit None (Some ''data:image/PNG;base64,aGk='')))) [''bad'']"
    by (simp add: contains_mgc_def sample_submit_def sample_env_def ascii_lower_def
        lower_char_def)
  have x: "sqlite_opt_ok (rs_x (sample_submit None (Some ''data:image/PNG;base64,aGk='')))"
    and y: "sqlite_opt_ok (rs_y (sample_submit None (Some ''data:image/PNG;base64,aGk='')))"
    by (simp_all add: sample_submit_def sqlite_opt_ok_def)
  have t0: "sqlite_int_ok (time_s sample_env)"
    by (simp add: sample_env_def sqlite_int_ok_def)
  then have t: "sqlite_int_ok
      (case rs_ts (sample_submit None (Some ''data:image/PNG;base64,aGk='')) of
         None \<Rightarrow> time_s sample_env
       | Some t \<Rightarrow> if t = 0 then time_s sample_env else t)"
    by (simp add: sample_submit_def)
  have c: "rs_imgData (sample_submit None (Some ''data:image/PNG;base64,aGk=''))
             = Some ''data:image/PNG;base64,aGk=''"
    by (simp add: sample_submit_def)
  have d: "image_data_url ''data:image/PNG;base64,aGk='' ''PNG'' ''aGk=''"
    by (simp add: image_data_url_def)
  have e: "b64decode sample_env ''aGk='' = Some ''hi''"
    by (simp add: sample_env_def)
  have f: "upload_name sample_env (ext_of (str_lower sample_env ''image/PNG''))
             = ''1700000000123_01234567.png''"
    by (simp add: upload_name_def sample_env_def ext_of_table ascii_lower_def lower_char_def
        str_int_def digit_char_def)
  show ?thesis
    using a b d e f t0
      report_image_saved [OF a b c x y t, of "''PNG''" "''aGk=''" "''hi''" empty_state]
    by (simp add: empty_state_def)
qed

section \<open>Soft deletion is one-way\<close>

lemma fold_max_ge: "(a::int) \<le> fold max ids a"
proof (induction ids arbitrary: a)
  case Nil
  show ?case by simp
next
  case (Cons x xs)
  have "a \<le> max x a" by simp
  also have "max x a \<le> fold max xs (max x a)" by (rule Cons.IH)
  finally show ?case by simp
qed

lemma fold_max_member: "i \<in> set ids \<Longrightarrow> (i::int) \<le> fold max ids a"
proof (induction ids arbitrary: a)
  case Nil
  then show ?case by simp
next
  case (Cons x xs)
  show ?case
  proof (cases "i = x")
    case True
    have "i \<le> max x a" using True by simp
    also have "max x a \<le> fold max xs (max x a)" by (rule fold_max_ge)
    finally show ?thesis by simp
  next
    case False
    with Cons.prems have "i \<in> set xs" by simp
    then have "i \<le> fold max xs (max x a)" by (rule Cons.IH)
    then show ?thesis by simp
  qed
qed

lemma next_rowid_fresh: "i \<in> set ids \<Longrightarrow> i < next_rowid ids"
  using fold_max_member [of i ids 0] by (simp add: next_rowid_def)

lemma soft_deleted_id_present: "soft_deleted r st \<Longrightarrow> rp_id r \<in> rp_id ` set (reports st)"
proof -
  assume "soft_deleted r st"
  then obtain r' where r': "r' \<in> set (reports st)" and s: "same_report r r'"
    unfolding soft_deleted_def by blast
  from s have "rp_id (r'\<lparr>rp_audited := rp_audited r, rp_deleted := rp_deleted r\<rparr>) = rp_id r"
    unfolding same_report_def by simp
  then have "rp_id r = rp_id r'" by simp
  with r' show ?thesis by (simp only: image_eqI)
qed

lemma soft_deleted_reports_cong:
  "reports st' = reports st \<Longrightarrow> soft_deleted r st \<Longrightarrow> soft_deleted r st'"
  by (simp add: soft_deleted_def)

lemma soft_deleted_append:
  assumes "soft_deleted r st" and "rp_id row \<noteq> rp_id r" and "reports st' = reports st @ [row]"
  shows "soft_deleted r st'"
  using assms unfolding soft_deleted_def by auto

lemma same_report_flag_update:
  "same_report r r' \<Longrightarrow> same_report r (r'\<lparr>rp_audited := v\<rparr>)"
  "same_report r r' \<Longrightarrow> same_report r (r'\<lparr>rp_deleted := w\<rparr>)"
  by (simp_all add: same_report_def)

lemma soft_deleted_audit:
  assumes "soft_deleted r st"
      and "reports st' = sql_update cond (\<lambda>x. x\<lparr>rp_audited := v\<rparr>) (reports st)"
  shows "soft_deleted r st'"
proof -
  from assms(1) obtain r' where r': "r' \<in> set (reports st)" "same_report r r'" "rp_deleted r' = 1"
    and every: "\<forall>x \<in> set (reports st). rp_id x = rp_id r \<longrightarrow> rp_deleted x = 1"
    unfolding soft_deleted_def by blast
  let ?f = "\<lambda>x. if cond x then x\<lparr>rp_audited := v\<rparr> else x"
  have set': "set (reports st') = ?f ` set (reports st)"
    by (simp add: assms(2) sql_update_def)
  have "?f r' \<in> set (reports st')" using r'(1) set' by blast
  moreover have "same_report r (?f r')" using r'(2) by (simp add: same_report_flag_update)
  moreover have "rp_deleted (?f r') = 1" using r'(3) by simp
  moreover have "\<forall>x \<in> set (reports st'). rp_id x = rp_id r \<longrightarrow> rp_deleted x = 1"
    using every set' by auto
  ultimately show ?thesis unfolding soft_deleted_def by blast
qed

lemma soft_deleted_delete:
  assumes "soft_deleted r st"
      and "reports st' = sql_update cond (\<lambda>x. x\<lparr>rp_deleted := 1\<rparr>) (reports st)"
  shows "soft_deleted r st'"
proof -
  from assms(1) obtain r' where r': "r' \<in> set (reports st)" "same_report r r'" "rp_deleted r' = 1"
    and every: "\<forall>x \<in> set (reports st). rp_id x = rp_id r \<longrightarrow> rp_deleted x = 1"
    unfolding soft_deleted_def by blast
  let ?f = "\<lambda>x. if cond x then x\<lparr>rp_deleted := 1\<rparr> else x"
  have set': "set (reports st') = ?f ` set (reports st)"
    by (simp add: assms(2) sql_update_def)
  have "?f r' \<in> set (reports st')" using r'(1) set' by blast
  moreover have "same_report r (?f r')" using r'(2) by (simp add: same_report_flag_update)
  moreover have "rp_deleted (?f r') = 1" using r'(3) by simp
  moreover have "\<forall>x \<in> set (reports st'). rp_id x = rp_id r \<longrightarrow> rp_deleted x = 1"
    using every set' by auto
  ultimately show ?thesis unfolding soft_deleted_def by blast
qed

lemma delete_report_marks:
  assumes "headers request ''X-Report-Pwd'' = Some REPORT_ADMIN_PWD"
      and "r \<in> set (reports st)" and "rd_id pd = rp_id r" and "sqlite_int_ok (rp_id r)"
  shows "soft_deleted r (snd (delete_report pd request st))"
proof -
  let ?f = "\<lambda>x. if rp_id x = rd_id pd then x\<lparr>rp_deleted := 1\<rparr> else x"
  have rows: "reports (snd (delete_report pd request st)) = map ?f (reports st)"
    using assms(1,3,4) by (simp add: delete_report_authorized sql_update_def)
  have "?f r \<in> set (map ?f (reports st))" using assms(2) by (simp only: set_map) (rule imageI)
  then have m: "r\<lparr>rp_deleted := 1\<rparr> \<in> set (map ?f (reports st))" using assms(3) by simp
  have s: "same_report r (r\<lparr>rp_deleted := 1\<rparr>)" by (simp add: same_report_def)
  have d: "rp_deleted (r\<lparr>rp_deleted := 1\<rparr>) = 1" by simp
  have every: "\<forall>x \<in> set (map ?f (reports st)). rp_id x = rp_id r \<longrightarrow> rp_deleted x = 1"
    using assms(3) by auto
  from m s d have "\<exists>r' \<in> set (map ?f (reports st)). same_report r r' \<and> rp_deleted r' = 1"
    by blast
  then show ?thesis unfolding soft_deleted_def rows using every by (rule conjI)
qed

lemma submit_report_reports:
  "reports (snd (submit_report e mgc p request st)) = reports st
   \<or> (\<exists>row. reports (snd (submit_report e mgc p request st)) = reports st @ [row]
        \<and> rp_id row = next_rowid (map rp_id (reports st)))"
proof (cases "headers request ''X-Report-Pwd'' = Some REPORT_UPLOAD_PWD")
  case False
  then show ?thesis
    using require_upload_pwd_reject [of request] by (simp add: submit_report_def)
next
  case auth: True
  show ?thesis
  proof (cases "contains_mgc (str_lower e) (Some (rs_text p)) mgc")
    case True
    with auth show ?thesis by (simp add: submit_report_banned)
  next
    case pass: False
    obtain img_path dir where img:
      "(case str_or_None (rs_imgData p) of
          None \<Rightarrow> (None, uploads st)
        | Some d \<Rightarrow> save_data_url_to_file e d (uploads st)) = (img_path, dir)"
      using image_step by blast
    show ?thesis
    proof (cases "sqlite_opt_ok (rs_x p) \<and> sqlite_opt_ok (rs_y p)
              \<and> sqlite_int_ok (int_or (rs_ts p) (time_s e))")
      case True
      then have "sqlite_opt_ok (rs_x p)" "sqlite_opt_ok (rs_y p)"
        "sqlite_int_ok (int_or (rs_ts p) (time_s e))" by simp_all
      from submit_report_pass [OF auth pass img this] show ?thesis by simp
    next
      case False
      from submit_report_overflow [OF auth pass img False] show ?thesis by simp
    qed
  qed
qed

lemma submit_score_reports: "reports (snd (submit_score e mgc p st)) = reports st"
  by (simp add: submit_score_def Let_def)

lemma audit_report_reports:
  "reports (snd (audit_report pa request st)) = reports st
   \<or> reports (snd (audit_report pa request st))
       = sql_update (\<lambda>r. rp_id r = ra_id pa)
           (\<lambda>r. r\<lparr>rp_audited := (if ra_audited pa then 1 else 0)\<rparr>) (reports st)"
  by (cases "headers request ''X-Report-Pwd'' = Some REPORT_ADMIN_PWD";
      cases "sqlite_int_ok (ra_id pa)")
     (simp_all add: audit_report_authorized audit_report_unauthorized audit_report_overflow)

lemma delete_report_reports:
  "reports (snd (delete_report pd request st)) = reports st
   \<or> reports (snd (delete_report pd request st))
       = sql_update (\<lambda>r. rp_id r = rd_id pd) (\<lambda>r. r\<lparr>rp_deleted := 1\<rparr>) (reports st)"
  by (cases "headers request ''X-Report-Pwd'' = Some REPORT_ADMIN_PWD";
      cases "sqlite_int_ok (rd_id pd)")
     (simp_all add: delete_report_authorized delete_report_unauthorized delete_report_overflow)

lemma handle_keeps_soft_deleted:
  assumes "soft_deleted r st"
  shows "soft_deleted r (snd (handle mgc e rq st))"
proof (cases rq)
  case (SubmitScore p)
  then show ?thesis
    using assms by (simp add: soft_deleted_reports_cong [OF submit_score_reports])
next
  case (Leaderboard page limit)
  then show ?thesis using assms by simp
next
  case (SubmitReport p request)
  from submit_report_reports [of e mgc p request st] show ?thesis
  proof
    assume "reports (snd (submit_report e mgc p request st)) = reports st"
    then show ?thesis using assms SubmitReport by (simp add: soft_deleted_reports_cong)
  next
    assume "\<exists>row. reports (snd (submit_report e mgc p request st)) = reports st @ [row]
        \<and> rp_id row = next_rowid (map rp_id (reports st))"
    then obtain row where row: "reports (snd (submit_report e mgc p request st)) = reports st @ [row]"
      and id: "rp_id row = next_rowid (map rp_id (reports st))" by blast
    have "rp_id r \<in> set (map rp_id (reports st))"
      using soft_deleted_id_present [OF assms] by simp
    then have "rp_id r < rp_id row" unfolding id by (rule next_rowid_fresh)
    then have "rp_id row \<noteq> rp_id r" by simp
    from soft_deleted_append [OF assms this row] show ?thesis using SubmitReport by simp
  qed
next
  case (ListReports page limit)
  then show ?thesis using assms by simp
next
  case (AuditReport pa request)
  from audit_report_reports [of pa request st] show ?thesis
  proof
    assume "reports (snd (audit_report pa request st)) = reports st"
    then show ?thesis using assms AuditReport by (simp add: soft_deleted_reports_cong)
  next
    assume "reports (snd (audit_report pa request st))
       = sql_update (\<lambda>r. rp_id r = ra_id pa)
           (\<lambda>r. r\<lparr>rp_audited := (if ra_audited pa then 1 else 0)\<rparr>) (reports st)"
    from soft_deleted_audit [OF assms this] show ?thesis using AuditReport by simp
  qed
next
  case (DeleteReport pd request)
  from delete_report_reports [of pd request st] show ?thesis
  proof
    assume "reports (snd (delete_report pd request st)) = reports st"
    then show ?thesis using assms DeleteReport by (simp add: soft_deleted_reports_cong)
  next
    assume "reports (snd (delete_report pd request st))
       = sql_update (\<lambda>r. rp_id r = rd_id pd) (\<lambda>r. r\<lparr>rp_deleted := 1\<rparr>) (reports st)"
    from soft_deleted_delete [OF assms this] show ?thesis using DeleteReport by simp
  qed
qed

lemma run_keeps_soft_deleted:
  "soft_deleted r st \<Longrightarrow> soft_deleted r (run mgc rqs st)"
proof (induction rqs arbitrary: st)
  case Nil
  then show ?case by simp
next
  case (Cons a rqs)
  obtain e rq where a: "a = (e, rq)" by (cases a)
  from Cons.prems have "soft_deleted r (snd (handle mgc e rq st))"
    by (rule handle_keeps_soft_deleted)
  then have "soft_deleted r (run mgc rqs (snd (handle mgc e rq st)))" by (rule Cons.IH)
  then show ?case by (simp add: a)
qed

lemma soft_deleted_not_listed:
  assumes "soft_deleted r st" and "it \<in> set (report_items_of (list_reports page limit st))"
  shows "ri_id it \<noteq> rp_id r"
proof
  assume eq: "ri_id it = rp_id r"
  from list_reports_items_not_deleted [OF assms(2)]
  obtain x where x: "x \<in> set (reports st)" "rp_deleted x = 0" "it = report_item x" by blast
  then have "rp_id x = rp_id r" using eq by (simp add: report_item_def)
  with assms(1) x(1) have "rp_deleted x = 1" unfolding soft_deleted_def by blast
  with x(2) show False by simp
qed

text \<open>
  C7. Let delete be applied, with the administrative password, to the id of a stored
  report (an id that SQLite can hold, so within the signed 64-bit range), and let any sequence of the service's requests (score and report submissions,
  the two listings, audits, deletes) follow. Then the row is still stored, unchanged up to
  its moderation flags and with \<open>deleted = 1\<close>; every row with that id has \<open>deleted = 1\<close>;
  and no page of the reports listing shows an item with that id.
\<close>

theorem soft_delete_one_way:
  assumes "headers request ''X-Report-Pwd'' = Some REPORT_ADMIN_PWD"
      and "r \<in> set (reports st)" and "rd_id pd = rp_id r" and "sqlite_int_ok (rp_id r)"
  shows "soft_deleted r (run mgc rqs (snd (delete_report pd request st)))
     \<and> (\<forall>it \<in> set (report_items_of
           (list_reports page limit (run mgc rqs (snd (delete_report pd request st))))).
          ri_id it \<noteq> rp_id r)"
proof -
  have "soft_deleted r (snd (delete_report pd request st))"
    using assms by (rule delete_report_marks)
  then have kept: "soft_deleted r (run mgc rqs (snd (delete_report pd request st)))"
    by (rule run_keeps_soft_deleted)
  then show ?thesis using soft_deleted_not_listed [OF kept] by blast
qed

theorem soft_delete_one_way_witness:
  "headers (with_pwd ''123'') ''X-Report-Pwd'' = Some REPORT_ADMIN_PWD
   \<and> sample_report 1 5 0 \<in> set (reports (empty_state\<lparr>reports := [sample_report 1 5 0]\<rparr>))
   \<and> rd_id \<lparr>rd_id = 1\<rparr> = rp_id (sample_report 1 5 0)
   \<and> sqlite_int_ok (rp_id (sample_report 1 5 0))
   \<and> soft_deleted (sample_report 1 5 0)
       (run [] [(sample_env, AuditReport \<lparr>ra_id = 1, ra_audited = True\<rparr> (with_pwd ''123'')),
                (sample_env, SubmitReport (sample_submit None None) (with_pwd ''123''))]
          (snd (delete_report \<lparr>rd_id = 1\<rparr> (with_pwd ''123'')
                  (empty_state\<lparr>reports := [sample_report 1 5 0]\<rparr>))))
   \<and> reports
       (run [] [(sample_env, AuditReport \<lparr>ra_id = 1, ra_audited = True\<rparr> (with_pwd ''123'')),
                (sample_env, SubmitReport (sample_submit None None) (with_pwd ''123''))]
          (snd (delete_report \<lparr>rd_id = 1\<rparr> (with_pwd ''123'')
                  (empty_state\<lparr>reports := [sample_report 1 5 0]\<rparr>))))
     = [(sample_report 1 5 1)\<lparr>rp_audited := 1\<rparr>, sample_report 2 1700000000 0]
   \<and> map ri_id (report_items_of (list_reports 1 20
       (run [] [(sample_env, AuditReport \<lparr>ra_id = 1, ra_audited = True\<rparr> (with_pwd ''123'')),
                (sample_env, SubmitReport (sample_submit None None) (with_pwd ''123''))]
          (snd (delete_report \<lparr>rd_id = 1\<rparr> (with_pwd ''123'')
                  (empty_state\<lparr>reports := [sample_report 1 5 0]\<rparr>)))))) = [2]"
proof -
  have a: "headers (with_pwd ''123'') ''X-Report-Pwd'' = Some REPORT_ADMIN_PWD"
    by (simp add: REPORT_ADMIN_PWD_def)
  have b: "sample_report 1 5 0 \<in> set (reports (empty_state\<lparr>reports := [sample_report 1 5 0]\<rparr>))"
    by simp
  have c: "rd_id \<lparr>rd_id = 1\<rparr> = rp_id (sample_report 1 5 0)"
    by (simp add: sample_report_def)
  have k: "sqlite_int_ok (rp_id (sample_report 1 5 0))"
    by (simp add: sample_report_def sqlite_int_ok_def)
  have d: "run [] [(sample_env, AuditReport \<lparr>ra_id = 1, ra_audited = True\<rparr> (with_pwd ''123'')),
                (sample_env, SubmitReport (sample_submit None None) (with_pwd ''123''))]
          (snd (delete_report \<lparr>rd_id = 1\<rparr> (with_pwd ''123'')
                  (empty_state\<lparr>reports := [sample_report 1 5 0]\<rparr>)))
        = empty_state\<lparr>reports :=
            [(sample_report 1 5 1)\<lparr>rp_audited := 1\<rparr>, sample_report 2 1700000000 0]\<rparr>"
    by (simp add: delete_report_def audit_report_def submit_report_def require_admin_pwd_def
        require_upload_pwd_def headers_get_def REPORT_ADMIN_PWD_def REPORT_UPLOAD_PWD_def
        sql_update_def contains_mgc_def int_or_def str_or_None_def next_rowid_def
        sample_report_def sample_submit_def sample_env_def empty_state_def Let_def
        sqlite_int_ok_def sqlite_opt_ok_def)
  have e: "map ri_id (report_items_of (list_reports 1 20
      (empty_state\<lparr>reports :=
            [(sample_report 1 5 1)\<lparr>rp_audited := 1\<rparr>, sample_report 2 1700000000 0]\<rparr>))) = [2]"
    by (simp add: list_reports_def sql_limit_offset_def sqlite_int_ok_def report_items_of_def
        order_reports_def report_item_def sample_report_def)
  show ?thesis
    using a b c k e
      soft_delete_one_way [OF a b c k, of "[]"
        "[(sample_env, AuditReport \<lparr>ra_id = 1, ra_audited = True\<rparr> (with_pwd ''123'')),
          (sample_env, SubmitReport (sample_submit None None) (with_pwd ''123''))]" 1 20]
    unfolding d by simp
qed

end
